theory Spec2Isabelle
  imports Main
begin

section \<open>Data model (src/lib/db/schema.ts)\<close>

text \<open>
  Every table of the schema is a list of rows, every row a record with the columns the
  route handlers read or write. Identifiers are the uuid strings of the schema. The
  timestamp columns (createdAt, updatedAt, joinedAt) carry wall-clock time and are left
  out; so are columns no handler touches (image, settings, events.isPublic).
\<close>

type_synonym uuid = string

text \<open>
  Text that a handler inspects character by character (\<open>trim\<close>, \<open>includes\<close>,
  \<open>toLowerCase\<close>) is a JavaScript string: a list of UTF-16 code units. \<open>utf16\<close> gives
  the code units of an ASCII literal.
\<close>

type_synonym jsstring = "nat list"

definition utf16 :: "string \<Rightarrow> jsstring" where
  "utf16 str = map of_char str"

datatype MemberRole = RoleAdmin | RoleMember

datatype ContributorRole = RoleOwner | RoleEditor | RoleViewer

datatype NotificationType =
  TypeComment | TypeMediaUpload | TypeEventUpdate | TypeInvitation | TypeSystem

record User =
  user_id :: uuid
  user_email :: jsstring
  user_name :: string

record Family =
  family_id :: uuid
  family_name :: jsstring
  family_description :: "jsstring option"
  family_createdById :: uuid

record FamilyMember =
  member_id :: uuid
  member_familyId :: uuid
  member_userId :: uuid
  member_role :: MemberRole

record Event =
  event_id :: uuid
  event_title :: jsstring
  event_description :: "jsstring option"
  event_date :: string
  event_location :: "jsstring option"
  event_familyId :: uuid
  event_createdById :: uuid
  event_eventType :: string
  event_tags :: "string list"

record Media =
  media_id :: uuid
  media_eventId :: uuid
  media_uploadedById :: uuid
  media_filename :: string
  media_originalName :: string
  media_mimeType :: string
  media_size :: int
  media_url :: "string option"
  media_altText :: "string option"
  media_isPublic :: bool

record Comment =
  comment_id :: uuid
  comment_eventId :: uuid
  comment_authorId :: uuid
  comment_content :: string
  comment_parentId :: "uuid option"
  comment_isEdited :: bool

record EventContributor =
  contributor_id :: uuid
  contributor_eventId :: uuid
  contributor_userId :: uuid
  contributor_role :: ContributorRole
  contributor_addedById :: uuid
  contributor_canEdit :: bool
  contributor_canDelete :: bool
  contributor_canInvite :: bool

record Notification =
  notification_id :: uuid
  notification_userId :: uuid
  notification_type :: NotificationType
  notification_title :: string
  notification_message :: string
  notification_referenceId :: "uuid option"
  notification_referenceType :: "string option"
  notification_isRead :: bool

record EventPrivacy =
  privacy_id :: uuid
  privacy_eventId :: uuid
  privacy_userId :: uuid
  privacy_canView :: bool
  privacy_canEdit :: bool
  privacy_canComment :: bool
  privacy_canUploadMedia :: bool

record db =
  users :: "User list"
  families :: "Family list"
  familyMembers :: "FamilyMember list"
  events :: "Event list"
  media :: "Media list"
  comments :: "Comment list"
  eventContributors :: "EventContributor list"
  notifications :: "Notification list"
  eventPrivacy :: "EventPrivacy list"

section \<open>Requests, responses and the store\<close>

text \<open>
  A handler is a function from the store and the request to the response and the store
  afterwards. A response is \<open>NextResponse.json\<close> with its status: an error carries the
  text of its \<open>error\<close> field, a success only the status (its payload is the row or rows
  that were read or written, visible in the returned store).

  The session is what \<open>getServerSession\<close> yields: \<open>!session?.user?.id\<close> holds when
  there is no session and when the id is the empty string.

  Bodies validated by a zod schema reach the model as the outcome of \<open>safeParse\<close>:
  \<open>None\<close> when \<open>success\<close> is false, \<open>Some data\<close> otherwise.

  An identifier in the store is the text the store returns for a uuid value, and so is
  the session's user id, which was read from the user's row at sign-in. An identifier of
  the request (path parameter or body field) that only enters store queries is given as
  the uuid value the store reads from it; a text the store cannot read as a uuid makes the
  store call throw. Where a handler also compares the request's text in JavaScript, it
  takes the text itself and the store's conversion \<open>uuid_in\<close>.

  Every handler body is inside \<open>try { ... } catch { 500 }\<close>. Store calls are the
  statements that can throw (lost connection, violated constraint); they are numbered in
  source order inside each handler, and the argument \<open>fault\<close> names the call site that
  throws when control reaches it (\<open>None\<close>: no call throws). A statement that throws
  changes nothing. Rows created by an insert get the identifier the store generates
  (\<open>defaultRandom\<close>), an argument of the handler.
\<close>

datatype response = Error nat string | Success nat

type_synonym session = "uuid option"

type_synonym fault = "nat option"

definition session_user_id :: "session \<Rightarrow> uuid option" where
  "session_user_id session =
     (case session of None \<Rightarrow> None | Some uid \<Rightarrow> if uid = [] then None else Some uid)"

definition unauthorized :: response where
  "unauthorized = Error 401 ''Unauthorized''"

definition internal_server_error :: response where
  "internal_server_error = Error 500 ''Internal server error''"

definition invalid_input :: response where
  "invalid_input = Error 400 ''Invalid input''"

definition event_not_found :: response where
  "event_not_found = Error 404 ''Event not found''"

definition access_denied :: response where
  "access_denied = Error 403 ''Access denied''"

definition permission_denied :: response where
  "permission_denied = Error 403 ''Permission denied''"

text \<open>The queries the handlers repeat: \<open>findFirst\<close> with the given \<open>where\<close>.\<close>

definition findEvent :: "db \<Rightarrow> uuid \<Rightarrow> Event option" where
  "findEvent s eventId = find (\<lambda>e. event_id e = eventId) (events s)"

definition findFamilyMembership :: "db \<Rightarrow> uuid \<Rightarrow> uuid \<Rightarrow> FamilyMember option" where
  "findFamilyMembership s familyId userId =
     find (\<lambda>m. member_familyId m = familyId \<and> member_userId m = userId) (familyMembers s)"

definition findContributor :: "db \<Rightarrow> uuid \<Rightarrow> uuid \<Rightarrow> EventContributor option" where
  "findContributor s eventId userId =
     find (\<lambda>c. contributor_eventId c = eventId \<and> contributor_userId c = userId)
       (eventContributors s)"

section \<open>Comments of an event (app/api/events/[id]/comments/route.ts)\<close>

record CommentData =
  cd_content :: string
  cd_parentId :: "uuid option"

definition comments_GET :: "db \<Rightarrow> fault \<Rightarrow> session \<Rightarrow> uuid \<Rightarrow> response \<times> db" where
  "comments_GET s fault session eventId =
     (case session_user_id session of
        None \<Rightarrow> (unauthorized, s)
      | Some uid \<Rightarrow>
          if fault = Some 0 then (internal_server_error, s)
          else (case findEvent s eventId of
            None \<Rightarrow> (event_not_found, s)
          | Some event \<Rightarrow>
              if fault = Some 1 then (internal_server_error, s)
              else (case findFamilyMembership s (event_familyId event) uid of
                None \<Rightarrow> (access_denied, s)
              | Some familyMembership \<Rightarrow>
                  if fault = Some 2 then (internal_server_error, s)
                  else (Success 200, s))))"

definition comments_POST ::
  "db \<Rightarrow> fault \<Rightarrow> uuid \<Rightarrow> session \<Rightarrow> uuid \<Rightarrow> CommentData option \<Rightarrow> response \<times> db" where
  "comments_POST s fault newId session eventId validation =
     (case session_user_id session of
        None \<Rightarrow> (unauthorized, s)
      | Some uid \<Rightarrow>
          (case validation of
             None \<Rightarrow> (invalid_input, s)
           | Some data \<Rightarrow>
               if fault = Some 0 then (internal_server_error, s)
               else (case findEvent s eventId of
                 None \<Rightarrow> (event_not_found, s)
               | Some event \<Rightarrow>
                   if fault = Some 1 then (internal_server_error, s)
                   else (case findFamilyMembership s (event_familyId event) uid of
                     None \<Rightarrow> (access_denied, s)
                   | Some familyMembership \<Rightarrow>
                       if event_createdById event \<noteq> uid \<and> fault = Some 2
                       then (internal_server_error, s)
                       else
                         let hasPermission =
                           (event_createdById event = uid \<or> findContributor s eventId uid \<noteq> None)
                         in if \<not> hasPermission then (permission_denied, s)
                            else if fault = Some 3 then (internal_server_error, s)
                            else (Success 201,
                              s\<lparr>comments := comments s @
                                [\<lparr>comment_id = newId, comment_eventId = eventId,
                                  comment_authorId = uid, comment_content = cd_content data,
                                  comment_parentId = cd_parentId data,
                                  comment_isEdited = False\<rparr>]\<rparr>)))))"

definition comments_DELETE ::
  "db \<Rightarrow> fault \<Rightarrow> session \<Rightarrow> uuid \<Rightarrow> uuid \<Rightarrow> response \<times> db" where
  "comments_DELETE s fault session eventId commentId =
     (case session_user_id session of
        None \<Rightarrow> (unauthorized, s)
      | Some uid \<Rightarrow>
          if fault = Some 0 then (internal_server_error, s)
          else (case findEvent s eventId of
            None \<Rightarrow> (event_not_found, s)
          | Some event \<Rightarrow>
              if fault = Some 1 then (internal_server_error, s)
              else (case findFamilyMembership s (event_familyId event) uid of
                None \<Rightarrow> (access_denied, s)
              | Some familyMembership \<Rightarrow>
                  if fault = Some 2 then (internal_server_error, s)
                  else (case find (\<lambda>c. comment_id c = commentId \<and> comment_eventId c = eventId)
                               (comments s) of
                    None \<Rightarrow> (Error 404 ''Comment not found'', s)
                  | Some existingComment \<Rightarrow>
                      let canDelete = (comment_authorId existingComment = uid
                                       \<or> event_createdById event = uid)
                      in if \<not> canDelete then (permission_denied, s)
                         else if fault = Some 3 then (internal_server_error, s)
                         else (Success 200,
                           s\<lparr>comments := filter (\<lambda>c. comment_id c \<noteq> commentId) (comments s)\<rparr>)))))"

definition comments_PUT ::
  "db \<Rightarrow> fault \<Rightarrow> session \<Rightarrow> uuid \<Rightarrow> uuid \<Rightarrow> string \<Rightarrow> bool \<Rightarrow> response \<times> db" where
  "comments_PUT s fault session eventId commentId content validation_success =
     (case session_user_id session of
        None \<Rightarrow> (unauthorized, s)
      | Some uid \<Rightarrow>
          if \<not> validation_success then (invalid_input, s)
          else if fault = Some 0 then (internal_server_error, s)
          else (case findEvent s eventId of
            None \<Rightarrow> (event_not_found, s)
          | Some event \<Rightarrow>
              if fault = Some 1 then (internal_server_error, s)
              else (case findFamilyMembership s (event_familyId event) uid of
                None \<Rightarrow> (access_denied, s)
              | Some familyMembership \<Rightarrow>
                  if fault = Some 2 then (internal_server_error, s)
                  else (case find (\<lambda>c. comment_id c = commentId \<and> comment_eventId c = eventId
                                        \<and> comment_authorId c = uid) (comments s) of
                    None \<Rightarrow> (Error 404 ''Comment not found or access denied'', s)
                  | Some existingComment \<Rightarrow>
                      if fault = Some 3 then (internal_server_error, s)
                      else (Success 200,
                        s\<lparr>comments :=
                            map (\<lambda>c. if comment_id c = commentId
                                     then c\<lparr>comment_content := content, comment_isEdited := True\<rparr>
                                     else c) (comments s)\<rparr>)))))"

section \<open>Media of an event (app/api/events/[id]/media/route.ts)\<close>

record MediaUploadData =
  md_filename :: string
  md_originalName :: string
  md_mimeType :: string
  md_size :: int
  md_url :: "string option"
  md_altText :: "string option"
  md_isPublic :: bool

definition media_GET :: "db \<Rightarrow> fault \<Rightarrow> session \<Rightarrow> uuid \<Rightarrow> response \<times> db" where
  "media_GET s fault session eventId =
     (case session_user_id session of
        None \<Rightarrow> (unauthorized, s)
      | Some uid \<Rightarrow>
          if fault = Some 0 then (internal_server_error, s)
          else (case findEvent s eventId of
            None \<Rightarrow> (event_not_found, s)
          | Some event \<Rightarrow>
              if fault = Some 1 then (internal_server_error, s)
              else (case findFamilyMembership s (event_familyId event) uid of
                None \<Rightarrow> (access_denied, s)
              | Some familyMembership \<Rightarrow>
                  if fault = Some 2 then (internal_server_error, s)
                  else (Success 200, s))))"

definition media_POST ::
  "db \<Rightarrow> fault \<Rightarrow> uuid \<Rightarrow> session \<Rightarrow> uuid \<Rightarrow> MediaUploadData option \<Rightarrow> response \<times> db" where
  "media_POST s fault newId session eventId validation =
     (case session_user_id session of
        None \<Rightarrow> (unauthorized, s)
      | Some uid \<Rightarrow>
          (case validation of
             None \<Rightarrow> (invalid_input, s)
           | Some data \<Rightarrow>
               if fault = Some 0 then (internal_server_error, s)
               else (case findEvent s eventId of
                 None \<Rightarrow> (event_not_found, s)
               | Some event \<Rightarrow>
                   if fault = Some 1 then (internal_server_error, s)
                   else (case findFamilyMembership s (event_familyId event) uid of
                     None \<Rightarrow> (access_denied, s)
                   | Some familyMembership \<Rightarrow>
                       if event_createdById event \<noteq> uid \<and> fault = Some 2
                       then (internal_server_error, s)
                       else
                         let hasPermission =
                           (event_createdById event = uid \<or> findContributor s eventId uid \<noteq> None)
                         in if \<not> hasPermission then (permission_denied, s)
                            else if fault = Some 3 then (internal_server_error, s)
                            else (Success 201,
                              s\<lparr>media := media s @
                                [\<lparr>media_id = newId, media_eventId = eventId,
                                  media_uploadedById = uid,
                                  media_filename = md_filename data,
                                  media_originalName = md_originalName data,
                                  media_mimeType = md_mimeType data,
                                  media_size = md_size data,
                                  media_url = md_url data,
                                  media_altText = md_altText data,
                                  media_isPublic = md_isPublic data\<rparr>]\<rparr>)))))"

definition media_DELETE ::
  "db \<Rightarrow> fault \<Rightarrow> session \<Rightarrow> uuid \<Rightarrow> uuid \<Rightarrow> response \<times> db" where
  "media_DELETE s fault session eventId mediaId =
     (case session_user_id session of
        None \<Rightarrow> (unauthorized, s)
      | Some uid \<Rightarrow>
          if fault = Some 0 then (internal_server_error, s)
          else (case findEvent s eventId of
            None \<Rightarrow> (event_not_found, s)
          | Some event \<Rightarrow>
              if fault = Some 1 then (internal_server_error, s)
              else (case findFamilyMembership s (event_familyId event) uid of
                None \<Rightarrow> (access_denied, s)
              | Some familyMembership \<Rightarrow>
                  if event_createdById event \<noteq> uid \<and> fault = Some 2
                  then (internal_server_error, s)
                  else
                    let hasPermission =
                      (event_createdById event = uid
                       \<or> find (\<lambda>c. contributor_eventId c = eventId \<and> contributor_userId c = uid
                                   \<and> contributor_canDelete c = True)
                            (eventContributors s) \<noteq> None)
                    in if \<not> hasPermission then (permission_denied, s)
                       else if fault = Some 3 then (internal_server_error, s)
                       else (case find (\<lambda>m. media_id m = mediaId \<and> media_eventId m = eventId)
                                    (media s) of
                         None \<Rightarrow> (Error 404 ''Media not found'', s)
                       | Some existingMedia \<Rightarrow>
                           if fault = Some 4 then (internal_server_error, s)
                           else (Success 200,
                             s\<lparr>media := filter (\<lambda>m. media_id m \<noteq> mediaId) (media s)\<rparr>)))))"

section \<open>A single event (app/api/events/[id]/route.ts)\<close>

text \<open>
  The three handlers select the event through inner joins with its family and with the
  family's member rows of the caller (GET also with the creator's user row), so an event
  the caller is no member of is not selected at all.

  The body is the parsed JSON with its fields at their declared types: \<open>None\<close> is a
  field that is absent (or, for the title, not a string). \<open>trim\<close> is
  \<open>String.prototype.trim\<close>: it strips the code units of ECMAScript's WhiteSpace and
  LineTerminator (tab, line feed, vertical tab, form feed, carriage return, space,
  no-break space, U+1680, U+2000 to U+200A, line and paragraph separator, U+202F, U+205F,
  U+3000 and U+FEFF) from both ends. \<open>new Date(date)\<close> is kept as the date string.
\<close>

record EventBody =
  eb_title :: "jsstring option"
  eb_description :: "jsstring option"
  eb_date :: "string option"
  eb_location :: "jsstring option"
  eb_familyId :: "uuid option"
  eb_eventType :: "string option"
  eb_tags :: "string list option"

definition is_white_space :: "nat \<Rightarrow> bool" where
  "is_white_space c =
     (c \<in> set [0x09, 0x0A, 0x0B, 0x0C, 0x0D, 0x20, 0xA0, 0x1680, 0x2028, 0x2029, 0x202F,
                0x205F, 0x3000, 0xFEFF]
      \<or> (0x2000 \<le> c \<and> c \<le> 0x200A))"

definition trim :: "jsstring \<Rightarrow> jsstring" where
  "trim str = rev (dropWhile is_white_space (rev (dropWhile is_white_space str)))"

definition trim_or_null :: "jsstring option \<Rightarrow> jsstring option" where
  "trim_or_null field =
     (case field of None \<Rightarrow> None
      | Some str \<Rightarrow> if trim str = [] then None else Some (trim str))"

definition string_or :: "string option \<Rightarrow> string \<Rightarrow> string" where
  "string_or field dflt =
     (case field of None \<Rightarrow> dflt | Some str \<Rightarrow> if str = [] then dflt else str)"

definition joinEventFamilyUserMember ::
  "db \<Rightarrow> uuid \<Rightarrow> uuid \<Rightarrow> (Event \<times> Family \<times> User \<times> FamilyMember) list" where
  "joinEventFamilyUserMember s eventId uid =
     [(e, f, u, m). e \<leftarrow> events s, f \<leftarrow> families s, event_familyId e = family_id f,
        u \<leftarrow> users s, event_createdById e = user_id u,
        m \<leftarrow> familyMembers s, family_id f = member_familyId m,
        event_id e = eventId \<and> member_userId m = uid]"

definition joinEventFamilyMember ::
  "db \<Rightarrow> uuid \<Rightarrow> uuid \<Rightarrow> (Event \<times> Family \<times> FamilyMember) list" where
  "joinEventFamilyMember s eventId uid =
     [(e, f, m). e \<leftarrow> events s, f \<leftarrow> families s, event_familyId e = family_id f,
        m \<leftarrow> familyMembers s, family_id f = member_familyId m,
        event_id e = eventId \<and> member_userId m = uid]"

definition selectRole :: "db \<Rightarrow> uuid \<Rightarrow> uuid \<Rightarrow> MemberRole list" where
  "selectRole s familyId uid =
     take 1 (map member_role
       (filter (\<lambda>m. member_familyId m = familyId \<and> member_userId m = uid) (familyMembers s)))"

text \<open>Deleting an event row takes the rows that reference it \<open>onDelete: 'cascade'\<close>.\<close>

definition delete_events_cascade :: "(Event \<Rightarrow> bool) \<Rightarrow> db \<Rightarrow> db" where
  "delete_events_cascade P s =
     (let gone = set (map event_id (filter P (events s)))
      in s\<lparr>events := filter (\<lambda>e. \<not> P e) (events s),
           media := filter (\<lambda>m. media_eventId m \<notin> gone) (media s),
           comments := filter (\<lambda>c. comment_eventId c \<notin> gone) (comments s),
           eventContributors := filter (\<lambda>c. contributor_eventId c \<notin> gone) (eventContributors s),
           eventPrivacy := filter (\<lambda>p. privacy_eventId p \<notin> gone) (eventPrivacy s)\<rparr>)"

definition event_GET :: "db \<Rightarrow> fault \<Rightarrow> session \<Rightarrow> uuid \<Rightarrow> response \<times> db" where
  "event_GET s fault session eventId =
     (case session_user_id session of
        None \<Rightarrow> (unauthorized, s)
      | Some uid \<Rightarrow>
          if fault = Some 0 then (internal_server_error, s)
          else let event = take 1 (joinEventFamilyUserMember s eventId uid)
               in if length event = 0 then (event_not_found, s)
                  else (Success 200, s))"

definition event_PUT ::
  "db \<Rightarrow> fault \<Rightarrow> session \<Rightarrow> uuid \<Rightarrow> EventBody \<Rightarrow> response \<times> db" where
  "event_PUT s fault session eventId body =
     (case session_user_id session of
        None \<Rightarrow> (unauthorized, s)
      | Some uid \<Rightarrow>
          (case eb_title body of
             None \<Rightarrow> (Error 400 ''Event title is required'', s)
           | Some title \<Rightarrow>
               if title = [] \<or> length (trim title) = 0
               then (Error 400 ''Event title is required'', s)
               else (case eb_date body of
                 None \<Rightarrow> (Error 400 ''Event date is required'', s)
               | Some date \<Rightarrow>
                   if date = [] then (Error 400 ''Event date is required'', s)
                   else if fault = Some 0 then (internal_server_error, s)
                   else (case take 1 (joinEventFamilyMember s eventId uid) of
                     [] \<Rightarrow> (event_not_found, s)
                   | (existingEvent, existingFamily, existingMember) # _ \<Rightarrow>
                       if fault = Some 1 then (internal_server_error, s)
                       else let userRole = selectRole s (family_id existingFamily) uid
                            in if event_createdById existingEvent \<noteq> uid
                                  \<and> (case userRole of [] \<Rightarrow> True | role # _ \<Rightarrow> role \<noteq> RoleAdmin)
                               then (Error 403 ''You do not have permission to update this event'', s)
                               else if fault = Some 2 then (internal_server_error, s)
                               else (Success 200,
                                 s\<lparr>events :=
                                     map (\<lambda>e. if event_id e = eventId
                                              then e\<lparr>event_title := trim title,
                                                     event_description := trim_or_null (eb_description body),
                                                     event_date := date,
                                                     event_location := trim_or_null (eb_location body),
                                                     event_eventType := string_or (eb_eventType body) ''other'',
                                                     event_tags :=
                                                       (case eb_tags body of None \<Rightarrow> [] | Some tags \<Rightarrow> tags)\<rparr>
                                              else e) (events s)\<rparr>)))))"

definition event_DELETE :: "db \<Rightarrow> fault \<Rightarrow> session \<Rightarrow> uuid \<Rightarrow> response \<times> db" where
  "event_DELETE s fault session eventId =
     (case session_user_id session of
        None \<Rightarrow> (unauthorized, s)
      | Some uid \<Rightarrow>
          if fault = Some 0 then (internal_server_error, s)
          else (case take 1 (joinEventFamilyMember s eventId uid) of
            [] \<Rightarrow> (event_not_found, s)
          | (existingEvent, existingFamily, existingMember) # _ \<Rightarrow>
              if fault = Some 1 then (internal_server_error, s)
              else let userRole = selectRole s (family_id existingFamily) uid
                   in if event_createdById existingEvent \<noteq> uid
                         \<and> (case userRole of [] \<Rightarrow> True | role # _ \<Rightarrow> role \<noteq> RoleAdmin)
                      then (Error 403 ''You do not have permission to delete this event'', s)
                      else if fault = Some 2 then (internal_server_error, s)
                      else (Success 200,
                        delete_events_cascade (\<lambda>e. event_id e = eventId) s)))"

section \<open>Events (app/api/events/route.ts)\<close>

definition events_GET :: "db \<Rightarrow> fault \<Rightarrow> session \<Rightarrow> response \<times> db" where
  "events_GET s fault session =
     (case session_user_id session of
        None \<Rightarrow> (unauthorized, s)
      | Some uid \<Rightarrow>
          if fault = Some 0 then (internal_server_error, s) else (Success 200, s))"

definition events_POST ::
  "db \<Rightarrow> fault \<Rightarrow> uuid \<Rightarrow> session \<Rightarrow> EventBody \<Rightarrow> response \<times> db" where
  "events_POST s fault newId session body =
     (case session_user_id session of
        None \<Rightarrow> (unauthorized, s)
      | Some uid \<Rightarrow>
          (case eb_title body of
             None \<Rightarrow> (Error 400 ''Event title is required'', s)
           | Some title \<Rightarrow>
               if title = [] \<or> length (trim title) = 0
               then (Error 400 ''Event title is required'', s)
               else (case eb_date body of
                 None \<Rightarrow> (Error 400 ''Event date is required'', s)
               | Some date \<Rightarrow>
                   if date = [] then (Error 400 ''Event date is required'', s)
                   else (case eb_familyId body of
                     None \<Rightarrow> (Error 400 ''Family ID is required'', s)
                   | Some familyId \<Rightarrow>
                       if familyId = [] then (Error 400 ''Family ID is required'', s)
                       else if fault = Some 0 then (internal_server_error, s)
                       else let familyMembership =
                              take 1 (filter (\<lambda>m. member_familyId m = familyId
                                                  \<and> member_userId m = uid) (familyMembers s))
                            in if length familyMembership = 0
                               then (Error 403 ''You are not a member of this family'', s)
                               else if fault = Some 1 then (internal_server_error, s)
                               else (Success 201,
                                 s\<lparr>events := events s @
                                   [\<lparr>event_id = newId, event_title = trim title,
                                     event_description = trim_or_null (eb_description body),
                                     event_date = date,
                                     event_location = trim_or_null (eb_location body),
                                     event_familyId = familyId, event_createdById = uid,
                                     event_eventType = string_or (eb_eventType body) ''other'',
                                     event_tags =
                                       (case eb_tags body of None \<Rightarrow> [] | Some tags \<Rightarrow> tags)\<rparr>]\<rparr>)))))"

section \<open>Privacy settings of an event (app/api/events/[id]/privacy/route.ts)\<close>

record PrivacySettingsData =
  pd_userId :: uuid
  pd_canView :: bool
  pd_canEdit :: bool
  pd_canComment :: bool
  pd_canUploadMedia :: bool

definition findPrivacy :: "db \<Rightarrow> uuid \<Rightarrow> uuid \<Rightarrow> EventPrivacy option" where
  "findPrivacy s eventId userId =
     find (\<lambda>p. privacy_eventId p = eventId \<and> privacy_userId p = userId) (eventPrivacy s)"

definition privacy_GET :: "db \<Rightarrow> fault \<Rightarrow> session \<Rightarrow> uuid \<Rightarrow> response \<times> db" where
  "privacy_GET s fault session eventId =
     (case session_user_id session of
        None \<Rightarrow> (unauthorized, s)
      | Some uid \<Rightarrow>
          if fault = Some 0 then (internal_server_error, s)
          else (case findEvent s eventId of
            None \<Rightarrow> (event_not_found, s)
          | Some event \<Rightarrow>
              if fault = Some 1 then (internal_server_error, s)
              else (case findFamilyMembership s (event_familyId event) uid of
                None \<Rightarrow> (access_denied, s)
              | Some familyMembership \<Rightarrow>
                  if fault = Some 2 then (internal_server_error, s)
                  else (Success 200, s))))"

definition privacy_POST ::
  "db \<Rightarrow> fault \<Rightarrow> uuid \<Rightarrow> session \<Rightarrow> uuid \<Rightarrow> PrivacySettingsData option \<Rightarrow> response \<times> db" where
  "privacy_POST s fault newId session eventId validation =
     (case session_user_id session of
        None \<Rightarrow> (unauthorized, s)
      | Some uid \<Rightarrow>
          (case validation of
             None \<Rightarrow> (invalid_input, s)
           | Some data \<Rightarrow>
               if fault = Some 0 then (internal_server_error, s)
               else (case findEvent s eventId of
                 None \<Rightarrow> (event_not_found, s)
               | Some event \<Rightarrow>
                   if fault = Some 1 then (internal_server_error, s)
                   else (case findFamilyMembership s (event_familyId event) uid of
                     None \<Rightarrow> (access_denied, s)
                   | Some familyMembership \<Rightarrow>
                       let hasPermission = (event_createdById event = uid)
                       in if \<not> hasPermission then (permission_denied, s)
                          else if fault = Some 2 then (internal_server_error, s)
                          else (case findPrivacy s eventId (pd_userId data) of
                            Some existingSettings \<Rightarrow>
                              if fault = Some 3 then (internal_server_error, s)
                              else (Success 200,
                                s\<lparr>eventPrivacy :=
                                    map (\<lambda>p. if privacy_id p = privacy_id existingSettings
                                             then p\<lparr>privacy_canView := pd_canView data,
                                                    privacy_canEdit := pd_canEdit data,
                                                    privacy_canComment := pd_canComment data,
                                                    privacy_canUploadMedia := pd_canUploadMedia data\<rparr>
                                             else p) (eventPrivacy s)\<rparr>)
                          | None \<Rightarrow>
                              if fault = Some 4 then (internal_server_error, s)
                              else (Success 201,
                                s\<lparr>eventPrivacy := eventPrivacy s @
                                  [\<lparr>privacy_id = newId, privacy_eventId = eventId,
                                    privacy_userId = pd_userId data,
                                    privacy_canView = pd_canView data,
                                    privacy_canEdit = pd_canEdit data,
                                    privacy_canComment = pd_canComment data,
                                    privacy_canUploadMedia = pd_canUploadMedia data\<rparr>]\<rparr>))))))"

definition privacy_DELETE ::
  "db \<Rightarrow> fault \<Rightarrow> session \<Rightarrow> uuid \<Rightarrow> uuid \<Rightarrow> response \<times> db" where
  "privacy_DELETE s fault session eventId userId =
     (case session_user_id session of
        None \<Rightarrow> (unauthorized, s)
      | Some uid \<Rightarrow>
          if fault = Some 0 then (internal_server_error, s)
          else (case findEvent s eventId of
            None \<Rightarrow> (event_not_found, s)
          | Some event \<Rightarrow>
              if fault = Some 1 then (internal_server_error, s)
              else (case findFamilyMembership s (event_familyId event) uid of
                None \<Rightarrow> (access_denied, s)
              | Some familyMembership \<Rightarrow>
                  let hasPermission = (event_createdById event = uid)
                  in if \<not> hasPermission then (permission_denied, s)
                     else if fault = Some 2 then (internal_server_error, s)
                     else (case findPrivacy s eventId userId of
                       None \<Rightarrow> (Error 404 ''Privacy settings not found'', s)
                     | Some existingSettings \<Rightarrow>
                         if fault = Some 3 then (internal_server_error, s)
                         else (Success 200,
                           s\<lparr>eventPrivacy :=
                               filter (\<lambda>p. privacy_id p \<noteq> privacy_id existingSettings)
                                 (eventPrivacy s)\<rparr>)))))"

section \<open>Contributors of an event (app/api/events/[id]/contributors/route.ts)\<close>

record EventContributorData =
  ed_userId :: uuid
  ed_role :: ContributorRole
  ed_canEdit :: bool
  ed_canDelete :: bool
  ed_canInvite :: bool

definition findInviter :: "db \<Rightarrow> uuid \<Rightarrow> uuid \<Rightarrow> EventContributor option" where
  "findInviter s eventId userId =
     find (\<lambda>c. contributor_eventId c = eventId \<and> contributor_userId c = userId
               \<and> contributor_canInvite c = True) (eventContributors s)"

definition contributors_GET :: "db \<Rightarrow> fault \<Rightarrow> session \<Rightarrow> uuid \<Rightarrow> response \<times> db" where
  "contributors_GET s fault session eventId =
     (case session_user_id session of
        None \<Rightarrow> (unauthorized, s)
      | Some uid \<Rightarrow>
          if fault = Some 0 then (internal_server_error, s)
          else (case findEvent s eventId of
            None \<Rightarrow> (event_not_found, s)
          | Some event \<Rightarrow>
              if fault = Some 1 then (internal_server_error, s)
              else (case findFamilyMembership s (event_familyId event) uid of
                None \<Rightarrow> (access_denied, s)
              | Some familyMembership \<Rightarrow>
                  if fault = Some 2 then (internal_server_error, s)
                  else (Success 200, s))))"

definition contributors_POST ::
  "db \<Rightarrow> fault \<Rightarrow> uuid \<Rightarrow> session \<Rightarrow> uuid \<Rightarrow> EventContributorData option \<Rightarrow> response \<times> db" where
  "contributors_POST s fault newId session eventId validation =
     (case session_user_id session of
        None \<Rightarrow> (unauthorized, s)
      | Some uid \<Rightarrow>
          (case validation of
             None \<Rightarrow> (invalid_input, s)
           | Some data \<Rightarrow>
               if fault = Some 0 then (internal_server_error, s)
               else (case findEvent s eventId of
                 None \<Rightarrow> (event_not_found, s)
               | Some event \<Rightarrow>
                   if fault = Some 1 then (internal_server_error, s)
                   else (case findFamilyMembership s (event_familyId event) uid of
                     None \<Rightarrow> (access_denied, s)
                   | Some familyMembership \<Rightarrow>
                       if event_createdById event \<noteq> uid \<and> fault = Some 2
                       then (internal_server_error, s)
                       else
                         let hasPermission =
                           (event_createdById event = uid \<or> findInviter s eventId uid \<noteq> None)
                         in if \<not> hasPermission then (permission_denied, s)
                            else if fault = Some 3 then (internal_server_error, s)
                            else (case findContributor s eventId (ed_userId data) of
                              Some existingContributor \<Rightarrow>
                                (Error 409 ''User is already a contributor'', s)
                            | None \<Rightarrow>
                                if fault = Some 4 then (internal_server_error, s)
                                else (Success 201,
                                  s\<lparr>eventContributors := eventContributors s @
                                    [\<lparr>contributor_id = newId, contributor_eventId = eventId,
                                      contributor_userId = ed_userId data,
                                      contributor_role = ed_role data,
                                      contributor_addedById = uid,
                                      contributor_canEdit = ed_canEdit data,
                                      contributor_canDelete = ed_canDelete data,
                                      contributor_canInvite = ed_canInvite data\<rparr>]\<rparr>))))))"

text \<open>
  DELETE reads \<open>userId\<close> from the body without validation and uses it twice: the rule
  about the creator compares its text with \<open>event.createdById\<close> in JavaScript
  (\<open>===\<close>), and the delete statement hands it to the store, which reads it as a uuid
  value with \<open>uuid_in\<close> (the input conversion of the store's uuid type; \<open>None\<close> for a
  text that is no uuid, on which the statement throws).
\<close>

definition contributors_DELETE ::
  "(string \<Rightarrow> uuid option) \<Rightarrow> db \<Rightarrow> fault \<Rightarrow> session \<Rightarrow> uuid \<Rightarrow> string \<Rightarrow> response \<times> db" where
  "contributors_DELETE uuid_in s fault session eventId userId =
     (case session_user_id session of
        None \<Rightarrow> (unauthorized, s)
      | Some uid \<Rightarrow>
          if fault = Some 0 then (internal_server_error, s)
          else (case findEvent s eventId of
            None \<Rightarrow> (event_not_found, s)
          | Some event \<Rightarrow>
              if fault = Some 1 then (internal_server_error, s)
              else (case findFamilyMembership s (event_familyId event) uid of
                None \<Rightarrow> (access_denied, s)
              | Some familyMembership \<Rightarrow>
                  if event_createdById event \<noteq> uid \<and> fault = Some 2
                  then (internal_server_error, s)
                  else
                    let hasPermission =
                      (event_createdById event = uid \<or> findInviter s eventId uid \<noteq> None)
                    in if \<not> hasPermission then (permission_denied, s)
                       else if event_createdById event = userId
                       then (Error 400 ''Cannot remove event creator'', s)
                       else if fault = Some 3 then (internal_server_error, s)
                       else (case uuid_in userId of
                         None \<Rightarrow> (internal_server_error, s)
                       | Some removed \<Rightarrow>
                           (Success 200,
                            s\<lparr>eventContributors :=
                                filter (\<lambda>c. \<not> (contributor_eventId c = eventId
                                                \<and> contributor_userId c = removed))
                                  (eventContributors s)\<rparr>)))))"

section \<open>Families (app/api/families/route.ts, app/api/families/[id]/route.ts)\<close>

record FamilyBody =
  fb_name :: "jsstring option"
  fb_description :: "jsstring option"

text \<open>
  Deleting a family row takes its member rows and its events \<open>onDelete: 'cascade'\<close>,
  and with the events the rows that reference them.
\<close>

definition delete_families_cascade :: "(Family \<Rightarrow> bool) \<Rightarrow> db \<Rightarrow> db" where
  "delete_families_cascade P s =
     (let gone = set (map family_id (filter P (families s)))
      in delete_events_cascade (\<lambda>e. event_familyId e \<in> gone)
           (s\<lparr>families := filter (\<lambda>f. \<not> P f) (families s),
              familyMembers := filter (\<lambda>m. member_familyId m \<notin> gone) (familyMembers s)\<rparr>))"

definition findAdminMembership :: "db \<Rightarrow> uuid \<Rightarrow> uuid \<Rightarrow> FamilyMember option" where
  "findAdminMembership s familyId userId =
     find (\<lambda>m. member_familyId m = familyId \<and> member_userId m = userId
               \<and> member_role m = RoleAdmin) (familyMembers s)"

definition families_GET :: "db \<Rightarrow> fault \<Rightarrow> session \<Rightarrow> response \<times> db" where
  "families_GET s fault session =
     (case session_user_id session of
        None \<Rightarrow> (unauthorized, s)
      | Some uid \<Rightarrow>
          if fault = Some 0 then (internal_server_error, s) else (Success 200, s))"

definition families_POST ::
  "db \<Rightarrow> fault \<Rightarrow> uuid \<Rightarrow> uuid \<Rightarrow> session \<Rightarrow> FamilyBody \<Rightarrow> response \<times> db" where
  "families_POST s fault newFamilyId newMemberId session body =
     (case session_user_id session of
        None \<Rightarrow> (unauthorized, s)
      | Some uid \<Rightarrow>
          (case fb_name body of
             None \<Rightarrow> (Error 400 ''Family name is required'', s)
           | Some name \<Rightarrow>
               if name = [] \<or> length (trim name) = 0
               then (Error 400 ''Family name is required'', s)
               else if fault = Some 0 then (internal_server_error, s)
               else
                 let newFamily = \<lparr>family_id = newFamilyId, family_name = trim name,
                                   family_description = trim_or_null (fb_description body),
                                   family_createdById = uid\<rparr>;
                     s1 = s\<lparr>families := families s @ [newFamily]\<rparr>
                 in if fault = Some 1 then (internal_server_error, s1)
                    else (Success 201,
                      s1\<lparr>familyMembers := familyMembers s1 @
                        [\<lparr>member_id = newMemberId, member_familyId = family_id newFamily,
                          member_userId = uid, member_role = RoleAdmin\<rparr>]\<rparr>)))"

definition family_GET :: "db \<Rightarrow> fault \<Rightarrow> session \<Rightarrow> uuid \<Rightarrow> response \<times> db" where
  "family_GET s fault session familyId =
     (case session_user_id session of
        None \<Rightarrow> (unauthorized, s)
      | Some uid \<Rightarrow>
          if fault = Some 0 then (internal_server_error, s)
          else (case findFamilyMembership s familyId uid of
            None \<Rightarrow> (Error 404 ''Family not found or access denied'', s)
          | Some member \<Rightarrow>
              if fault = Some 1 then (internal_server_error, s)
              else (case find (\<lambda>f. family_id f = familyId) (families s) of
                None \<Rightarrow> (Error 404 ''Family not found'', s)
              | Some family \<Rightarrow> (Success 200, s))))"

definition family_PUT ::
  "db \<Rightarrow> fault \<Rightarrow> session \<Rightarrow> uuid \<Rightarrow> FamilyBody \<Rightarrow> response \<times> db" where
  "family_PUT s fault session familyId body =
     (case session_user_id session of
        None \<Rightarrow> (unauthorized, s)
      | Some uid \<Rightarrow>
          if fault = Some 0 then (internal_server_error, s)
          else (case findAdminMembership s familyId uid of
            None \<Rightarrow> (Error 403 ''Unauthorized to update family'', s)
          | Some member \<Rightarrow>
              (case fb_name body of
                 None \<Rightarrow> (Error 400 ''Family name is required'', s)
               | Some name \<Rightarrow>
                   if name = [] \<or> length (trim name) = 0
                   then (Error 400 ''Family name is required'', s)
                   else if fault = Some 1 then (internal_server_error, s)
                   else (Success 200,
                     s\<lparr>families :=
                         map (\<lambda>f. if family_id f = familyId
                                  then f\<lparr>family_name := trim name,
                                         family_description := trim_or_null (fb_description body)\<rparr>
                                  else f) (families s)\<rparr>))))"

definition family_DELETE :: "db \<Rightarrow> fault \<Rightarrow> session \<Rightarrow> uuid \<Rightarrow> response \<times> db" where
  "family_DELETE s fault session familyId =
     (case session_user_id session of
        None \<Rightarrow> (unauthorized, s)
      | Some uid \<Rightarrow>
          if fault = Some 0 then (internal_server_error, s)
          else (case findAdminMembership s familyId uid of
            None \<Rightarrow> (Error 403 ''Unauthorized to delete family'', s)
          | Some member \<Rightarrow>
              if fault = Some 1 then (internal_server_error, s)
              else (Success 200, delete_families_cascade (\<lambda>f. family_id f = familyId) s)))"

section \<open>Notifications (app/api/notifications/route.ts)\<close>

record NotificationData =
  nd_type :: NotificationType
  nd_title :: string
  nd_message :: string
  nd_referenceId :: "uuid option"
  nd_referenceType :: "string option"

definition findNotification :: "db \<Rightarrow> uuid \<Rightarrow> uuid \<Rightarrow> Notification option" where
  "findNotification s notificationId userId =
     find (\<lambda>n. notification_id n = notificationId \<and> notification_userId n = userId)
       (notifications s)"

definition notifications_GET :: "db \<Rightarrow> fault \<Rightarrow> session \<Rightarrow> response \<times> db" where
  "notifications_GET s fault session =
     (case session_user_id session of
        None \<Rightarrow> (unauthorized, s)
      | Some uid \<Rightarrow>
          if fault = Some 0 then (internal_server_error, s) else (Success 200, s))"

definition notifications_POST ::
  "db \<Rightarrow> fault \<Rightarrow> uuid \<Rightarrow> session \<Rightarrow> NotificationData option \<Rightarrow> response \<times> db" where
  "notifications_POST s fault newId session validation =
     (case session_user_id session of
        None \<Rightarrow> (unauthorized, s)
      | Some uid \<Rightarrow>
          (case validation of
             None \<Rightarrow> (invalid_input, s)
           | Some data \<Rightarrow>
               if fault = Some 0 then (internal_server_error, s)
               else (Success 201,
                 s\<lparr>notifications := notifications s @
                   [\<lparr>notification_id = newId, notification_userId = uid,
                     notification_type = nd_type data, notification_title = nd_title data,
                     notification_message = nd_message data,
                     notification_referenceId = nd_referenceId data,
                     notification_referenceType = nd_referenceType data,
                     notification_isRead = False\<rparr>]\<rparr>)))"

definition notifications_PUT ::
  "db \<Rightarrow> fault \<Rightarrow> session \<Rightarrow> uuid \<Rightarrow> bool \<Rightarrow> bool \<Rightarrow> response \<times> db" where
  "notifications_PUT s fault session notificationId isRead validation_success =
     (case session_user_id session of
        None \<Rightarrow> (unauthorized, s)
      | Some uid \<Rightarrow>
          if \<not> validation_success then (invalid_input, s)
          else if fault = Some 0 then (internal_server_error, s)
          else (case findNotification s notificationId uid of
            None \<Rightarrow> (Error 404 ''Notification not found'', s)
          | Some existingNotification \<Rightarrow>
              if fault = Some 1 then (internal_server_error, s)
              else (Success 200,
                s\<lparr>notifications :=
                    map (\<lambda>n. if notification_id n = notificationId
                             then n\<lparr>notification_isRead := isRead\<rparr> else n)
                      (notifications s)\<rparr>)))"

definition notifications_DELETE ::
  "db \<Rightarrow> fault \<Rightarrow> session \<Rightarrow> uuid \<Rightarrow> bool \<Rightarrow> response \<times> db" where
  "notifications_DELETE s fault session notificationId validation_success =
     (case session_user_id session of
        None \<Rightarrow> (unauthorized, s)
      | Some uid \<Rightarrow>
          if \<not> validation_success then (invalid_input, s)
          else if fault = Some 0 then (internal_server_error, s)
          else (case findNotification s notificationId uid of
            None \<Rightarrow> (Error 404 ''Notification not found'', s)
          | Some existingNotification \<Rightarrow>
              if fault = Some 1 then (internal_server_error, s)
              else (Success 200,
                s\<lparr>notifications :=
                    filter (\<lambda>n. notification_id n \<noteq> notificationId) (notifications s)\<rparr>)))"

section \<open>Members of a family (app/api/families/[id]/members/route.ts)\<close>

text \<open>
  POST looks the invited user up by \<open>email.toLowerCase()\<close>. \<open>toLowerCase\<close> is the
  built-in of the language (Unicode case conversion) and an argument of the handler.
\<close>

definition members_GET :: "db \<Rightarrow> fault \<Rightarrow> session \<Rightarrow> uuid \<Rightarrow> response \<times> db" where
  "members_GET s fault session familyId =
     (case session_user_id session of
        None \<Rightarrow> (unauthorized, s)
      | Some uid \<Rightarrow>
          if fault = Some 0 then (internal_server_error, s)
          else let userMembership =
                 take 1 (filter (\<lambda>m. member_familyId m = familyId \<and> member_userId m = uid)
                           (familyMembers s))
               in if length userMembership = 0 then (access_denied, s)
                  else if fault = Some 1 then (internal_server_error, s)
                  else (Success 200, s))"

definition members_POST ::
  "(jsstring \<Rightarrow> jsstring) \<Rightarrow> db \<Rightarrow> fault \<Rightarrow> uuid \<Rightarrow> session \<Rightarrow> uuid \<Rightarrow> jsstring option
     \<Rightarrow> response \<times> db" where
  "members_POST toLowerCase s fault newId session familyId email =
     (case session_user_id session of
        None \<Rightarrow> (unauthorized, s)
      | Some uid \<Rightarrow>
          if fault = Some 0 then (internal_server_error, s)
          else (case selectRole s familyId uid of
            [] \<Rightarrow> (Error 403 ''Only family admins can add members'', s)
          | role # _ \<Rightarrow>
              if role \<noteq> RoleAdmin then (Error 403 ''Only family admins can add members'', s)
              else (case email of
                None \<Rightarrow> (Error 400 ''Valid email address is required'', s)
              | Some address \<Rightarrow>
                  if address = [] \<or> of_char (CHR ''@'') \<notin> set address
                  then (Error 400 ''Valid email address is required'', s)
                  else if fault = Some 1 then (internal_server_error, s)
                  else (case take 1 (filter (\<lambda>u. user_email u = toLowerCase address) (users s)) of
                    [] \<Rightarrow> (Error 404 ''User not found. They must sign up first.'', s)
                  | existingUser # _ \<Rightarrow>
                      if fault = Some 2 then (internal_server_error, s)
                      else let existingMember =
                             take 1 (filter (\<lambda>m. member_familyId m = familyId
                                                 \<and> member_userId m = user_id existingUser)
                                       (familyMembers s))
                           in if length existingMember > 0
                              then (Error 400 ''User is already a member of this family'', s)
                              else if fault = Some 3 then (internal_server_error, s)
                              else (Success 201,
                                s\<lparr>familyMembers := familyMembers s @
                                  [\<lparr>member_id = newId, member_familyId = familyId,
                                    member_userId = user_id existingUser,
                                    member_role = RoleMember\<rparr>]\<rparr>)))))"

definition members_DELETE :: "db \<Rightarrow> uuid \<Rightarrow> response \<times> db" where
  "members_DELETE s familyId = (Error 501 ''Member removal not implemented yet'', s)"

section \<open>Runs of the API\<close>

text \<open>
  A family is orphaned when no member row makes its creator an admin of it. The creator
  of an event passes the membership check like everyone else, by his member row in the
  event's family.

  A run is a sequence of the requests that write the store, applied from left to right;
  the GET handlers and the member DELETE stub write nothing. \<open>WriteUsers\<close> stands for
  the writers of the user table outside the handlers above (sign-in through the
  authentication adapter, the profile route): they write no other table.
\<close>

definition has_admin_creator :: "db \<Rightarrow> Family \<Rightarrow> bool" where
  "has_admin_creator s f =
     (\<exists>m \<in> set (familyMembers s). member_familyId m = family_id f
        \<and> member_userId m = family_createdById f \<and> member_role m = RoleAdmin)"

definition no_orphan_family :: "db \<Rightarrow> bool" where
  "no_orphan_family s = (\<forall>f \<in> set (families s). has_admin_creator s f)"

definition creators_are_members :: "db \<Rightarrow> bool" where
  "creators_are_members s =
     (\<forall>e \<in> set (events s). \<exists>m \<in> set (familyMembers s).
        member_familyId m = event_familyId e \<and> member_userId m = event_createdById e)"

datatype api_request =
    CreateFamily fault uuid uuid session FamilyBody
  | UpdateFamily fault session uuid FamilyBody
  | DeleteFamily fault session uuid
  | AddMember fault uuid session uuid "jsstring option"
  | CreateEvent fault uuid session EventBody
  | UpdateEvent fault session uuid EventBody
  | DeleteEvent fault session uuid
  | PostComment fault uuid session uuid "CommentData option"
  | DeleteComment fault session uuid uuid
  | UpdateComment fault session uuid uuid string bool
  | UploadMedia fault uuid session uuid "MediaUploadData option"
  | DeleteMedia fault session uuid uuid
  | SetPrivacy fault uuid session uuid "PrivacySettingsData option"
  | DeletePrivacy fault session uuid uuid
  | AddContributor fault uuid session uuid "EventContributorData option"
  | RemoveContributor fault session uuid string
  | CreateNotification fault uuid session "NotificationData option"
  | UpdateNotification fault session uuid bool bool
  | DeleteNotification fault session uuid bool
  | WriteUsers "User list"

fun api_step ::
  "(jsstring \<Rightarrow> jsstring) \<Rightarrow> (string \<Rightarrow> uuid option) \<Rightarrow> db \<Rightarrow> api_request \<Rightarrow> db" where
  "api_step toLowerCase uuid_in s (CreateFamily fault newFamilyId newMemberId session body) =
     snd (families_POST s fault newFamilyId newMemberId session body)"
| "api_step toLowerCase uuid_in s (UpdateFamily fault session familyId body) =
     snd (family_PUT s fault session familyId body)"
| "api_step toLowerCase uuid_in s (DeleteFamily fault session familyId) =
     snd (family_DELETE s fault session familyId)"
| "api_step toLowerCase uuid_in s (AddMember fault newId session familyId email) =
     snd (members_POST toLowerCase s fault newId session familyId email)"
| "api_step toLowerCase uuid_in s (CreateEvent fault newId session body) =
     snd (events_POST s fault newId session body)"
| "api_step toLowerCase uuid_in s (UpdateEvent fault session eventId body) =
     snd (event_PUT s fault session eventId body)"
| "api_step toLowerCase uuid_in s (DeleteEvent fault session eventId) =
     snd (event_DELETE s fault session eventId)"
| "api_step toLowerCase uuid_in s (PostComment fault newId session eventId validation) =
     snd (comments_POST s fault newId session eventId validation)"
| "api_step toLowerCase uuid_in s (DeleteComment fault session eventId commentId) =
     snd (comments_DELETE s fault session eventId commentId)"
| "api_step toLowerCase uuid_in s (UpdateComment fault session eventId commentId content valid) =
     snd (comments_PUT s fault session eventId commentId content valid)"
| "api_step toLowerCase uuid_in s (UploadMedia fault newId session eventId validation) =
     snd (media_POST s fault newId session eventId validation)"
| "api_step toLowerCase uuid_in s (DeleteMedia fault session eventId mediaId) =
     snd (media_DELETE s fault session eventId mediaId)"
| "api_step toLowerCase uuid_in s (SetPrivacy fault newId session eventId validation) =
     snd (privacy_POST s fault newId session eventId validation)"
| "api_step toLowerCase uuid_in s (DeletePrivacy fault session eventId userId) =
     snd (privacy_DELETE s fault session eventId userId)"
| "api_step toLowerCase uuid_in s (AddContributor fault newId session eventId validation) =
     snd (contributors_POST s fault newId session eventId validation)"
| "api_step toLowerCase uuid_in s (RemoveContributor fault session eventId userId) =
     snd (contributors_DELETE uuid_in s fault session eventId userId)"
| "api_step toLowerCase uuid_in s (CreateNotification fault newId session validation) =
     snd (notifications_POST s fault newId session validation)"
| "api_step toLowerCase uuid_in s (UpdateNotification fault session notificationId isRead valid) =
     snd (notifications_PUT s fault session notificationId isRead valid)"
| "api_step toLowerCase uuid_in s (DeleteNotification fault session notificationId valid) =
     snd (notifications_DELETE s fault session notificationId valid)"
| "api_step toLowerCase uuid_in s (WriteUsers rows) = s\<lparr>users := rows\<rparr>"

fun second_insert_fails :: "api_request \<Rightarrow> bool" where
  "second_insert_fails (CreateFamily fault newFamilyId newMemberId session body) =
     (fault = Some 1)"
| "second_insert_fails other = False"

definition run ::
  "(jsstring \<Rightarrow> jsstring) \<Rightarrow> (string \<Rightarrow> uuid option) \<Rightarrow> db \<Rightarrow> api_request list \<Rightarrow> db" where
  "run toLowerCase uuid_in s requests = foldl (api_step toLowerCase uuid_in) s requests"

section \<open>A family with one event\<close>

text \<open>
  The store used to run the handlers on concrete requests. Alice founded the family and
  created the event; Bob and Carol are members of the family, Dave is not. Bob is a
  contributor of the event who may edit and invite but not delete, and uploaded a photo;
  Dave has a contributor row with every capability. Bob's privacy row switches commenting
  and uploading off.
\<close>

definition alice :: uuid where "alice = ''a11ce000-0000-4000-8000-000000000001''"
definition bob :: uuid where "bob = ''b0b00000-0000-4000-8000-000000000002''"
definition carol :: uuid where "carol = ''ca701000-0000-4000-8000-000000000003''"
definition dave :: uuid where "dave = ''da4e0000-0000-4000-8000-000000000004''"
definition fam1 :: uuid where "fam1 = ''fa000000-0000-4000-8000-000000000001''"
definition ev1 :: uuid where "ev1 = ''e0000000-0000-4000-8000-000000000001''"
definition med1 :: uuid where "med1 = ''d0000000-0000-4000-8000-000000000001''"
definition com1 :: uuid where "com1 = ''c0000000-0000-4000-8000-000000000001''"
definition fresh1 :: uuid where "fresh1 = ''f0000000-0000-4000-8000-000000000001''"
definition fresh2 :: uuid where "fresh2 = ''f0000000-0000-4000-8000-000000000002''"
definition missing :: uuid where "missing = ''00000000-0000-4000-8000-000000000000''"
definition mem1 :: uuid where "mem1 = ''10000000-0000-4000-8000-000000000001''"
definition mem2 :: uuid where "mem2 = ''10000000-0000-4000-8000-000000000002''"
definition mem3 :: uuid where "mem3 = ''10000000-0000-4000-8000-000000000003''"
definition con1 :: uuid where "con1 = ''20000000-0000-4000-8000-000000000001''"
definition con2 :: uuid where "con2 = ''20000000-0000-4000-8000-000000000002''"
definition prv1 :: uuid where "prv1 = ''30000000-0000-4000-8000-000000000001''"

definition empty_db :: db where
  "empty_db = \<lparr>users = [], families = [], familyMembers = [], events = [], media = [],
     comments = [], eventContributors = [], notifications = [], eventPrivacy = []\<rparr>"

definition example_event :: Event where
  "example_event =
     \<lparr>event_id = ev1, event_title = utf16 ''Wedding'', event_description = None,
      event_date = ''2024-06-01'', event_location = None, event_familyId = fam1,
      event_createdById = alice, event_eventType = ''wedding'', event_tags = []\<rparr>"

definition example_users :: "User list" where
  "example_users =
     [\<lparr>user_id = alice, user_email = utf16 ''alice@example.org'', user_name = ''Alice''\<rparr>,
      \<lparr>user_id = bob, user_email = utf16 ''bob@example.org'', user_name = ''Bob''\<rparr>,
      \<lparr>user_id = carol, user_email = utf16 ''carol@example.org'', user_name = ''Carol''\<rparr>,
      \<lparr>user_id = dave, user_email = utf16 ''dave@example.org'', user_name = ''Dave''\<rparr>]"

definition example_db :: db where
  "example_db =
     \<lparr>users = example_users,
      families =
        [\<lparr>family_id = fam1, family_name = utf16 ''Smith'', family_description = None,
          family_createdById = alice\<rparr>],
      familyMembers =
        [\<lparr>member_id = mem1, member_familyId = fam1, member_userId = alice,
          member_role = RoleAdmin\<rparr>,
         \<lparr>member_id = mem2, member_familyId = fam1, member_userId = bob,
          member_role = RoleMember\<rparr>,
         \<lparr>member_id = mem3, member_familyId = fam1, member_userId = carol,
          member_role = RoleMember\<rparr>],
      events = [example_event],
      media =
        [\<lparr>media_id = med1, media_eventId = ev1, media_uploadedById = bob,
          media_filename = ''a.jpg'', media_originalName = ''a.jpg'',
          media_mimeType = ''image/jpeg'', media_size = 1024, media_url = None,
          media_altText = None, media_isPublic = False\<rparr>],
      comments =
        [\<lparr>comment_id = com1, comment_eventId = ev1, comment_authorId = alice,
          comment_content = ''What a day'', comment_parentId = None,
          comment_isEdited = False\<rparr>],
      eventContributors =
        [\<lparr>contributor_id = con1, contributor_eventId = ev1, contributor_userId = bob,
          contributor_role = RoleEditor, contributor_addedById = alice,
          contributor_canEdit = True, contributor_canDelete = False,
          contributor_canInvite = True\<rparr>,
         \<lparr>contributor_id = con2, contributor_eventId = ev1, contributor_userId = dave,
          contributor_role = RoleOwner, contributor_addedById = alice,
          contributor_canEdit = True, contributor_canDelete = True,
          contributor_canInvite = True\<rparr>],
      notifications = [],
      eventPrivacy =
        [\<lparr>privacy_id = prv1, privacy_eventId = ev1, privacy_userId = bob,
          privacy_canView = True, privacy_canEdit = False, privacy_canComment = False,
          privacy_canUploadMedia = False\<rparr>]\<rparr>"

definition example_comment :: CommentData where
  "example_comment = \<lparr>cd_content = ''Lovely'', cd_parentId = None\<rparr>"

definition example_upload :: MediaUploadData where
  "example_upload = \<lparr>md_filename = ''b.jpg'', md_originalName = ''b.jpg'',
     md_mimeType = ''image/jpeg'', md_size = 2048, md_url = None, md_altText = None,
     md_isPublic = False\<rparr>"

definition example_settings :: PrivacySettingsData where
  "example_settings = \<lparr>pd_userId = carol, pd_canView = True, pd_canEdit = False,
     pd_canComment = True, pd_canUploadMedia = True\<rparr>"

definition example_invitation :: EventContributorData where
  "example_invitation = \<lparr>ed_userId = carol, ed_role = RoleEditor, ed_canEdit = True,
     ed_canDelete = False, ed_canInvite = False\<rparr>"

definition example_notification :: NotificationData where
  "example_notification = \<lparr>nd_type = TypeSystem, nd_title = ''Hello'',
     nd_message = ''Welcome'', nd_referenceId = None, nd_referenceType = None\<rparr>"

definition example_family :: FamilyBody where
  "example_family = \<lparr>fb_name = Some (utf16 ''Jones''), fb_description = None\<rparr>"

definition example_event_body :: EventBody where
  "example_event_body = \<lparr>eb_title = Some (utf16 ''Party''), eb_description = None,
     eb_date = Some ''2024-07-01'', eb_location = None, eb_familyId = Some fam1,
     eb_eventType = None, eb_tags = None\<rparr>"

definition example_invite_dave :: EventContributorData where
  "example_invite_dave = \<lparr>ed_userId = dave, ed_role = RoleEditor, ed_canEdit = True,
     ed_canDelete = False, ed_canInvite = True\<rparr>"

text \<open>
  A run from the empty store: the four users sign up, Alice creates a family and an event
  in it, and invites Dave, who is no member of the family, as a contributor who may
  invite. \<open>signed_up_db\<close> is the store after the first request and
  \<open>example_run_db\<close> the store after the last.
\<close>

definition example_party :: Event where
  "example_party =
     \<lparr>event_id = ev1, event_title = utf16 ''Party'', event_description = None,
      event_date = ''2024-07-01'', event_location = None, event_familyId = fam1,
      event_createdById = alice, event_eventType = ''other'', event_tags = []\<rparr>"

definition signed_up_db :: db where
  "signed_up_db = empty_db\<lparr>users := example_users\<rparr>"

definition example_run_db :: db where
  "example_run_db =
     \<lparr>users = example_users,
      families =
        [\<lparr>family_id = fam1, family_name = utf16 ''Jones'', family_description = None,
          family_createdById = alice\<rparr>],
      familyMembers =
        [\<lparr>member_id = mem1, member_familyId = fam1, member_userId = alice,
          member_role = RoleAdmin\<rparr>],
      events = [example_party],
      media = [], comments = [],
      eventContributors =
        [\<lparr>contributor_id = con2, contributor_eventId = ev1, contributor_userId = dave,
          contributor_role = RoleEditor, contributor_addedById = alice,
          contributor_canEdit = True, contributor_canDelete = False,
          contributor_canInvite = True\<rparr>],
      notifications = [], eventPrivacy = []\<rparr>"

definition example_run :: "api_request list" where
  "example_run =
     [WriteUsers example_users,
      CreateFamily None fam1 mem1 (Some alice) example_family,
      CreateEvent None ev1 (Some alice) example_event_body,
      AddContributor None con2 (Some alice) ev1 (Some example_invite_dave)]"

section \<open>The checks every event handler starts with\<close>

text \<open>
  Each handler on an event's comments, media, privacy settings and contributors looks the
  event up first and the caller's membership of the event's family second. The lemmas
  below give the outcome of a request stopped at one of the two checks, for every handler
  and every store fault.
\<close>

lemmas responses = unauthorized_def internal_server_error_def invalid_input_def
  event_not_found_def access_denied_def permission_denied_def

lemma comments_GET_no_event:
  assumes "session_user_id session = Some uid" and "findEvent s eventId = None"
  shows "comments_GET s fault session eventId =
    ((if fault = Some 0 then internal_server_error else event_not_found), s)"
  using assms by (simp add: comments_GET_def)

lemma comments_GET_no_member:
  assumes "session_user_id session = Some uid" and "findEvent s eventId = Some event"
    and "findFamilyMembership s (event_familyId event) uid = None"
  shows "comments_GET s fault session eventId =
    ((if fault = Some 0 \<or> fault = Some 1 then internal_server_error else access_denied), s)"
  using assms by (simp add: comments_GET_def)

lemma comments_POST_no_event:
  assumes "session_user_id session = Some uid" and "findEvent s eventId = None"
  shows "comments_POST s fault newId session eventId (Some cdata) =
    ((if fault = Some 0 then internal_server_error else event_not_found), s)"
  using assms by (simp add: comments_POST_def)

lemma comments_POST_no_member:
  assumes "session_user_id session = Some uid" and "findEvent s eventId = Some event"
    and "findFamilyMembership s (event_familyId event) uid = None"
  shows "comments_POST s fault newId session eventId (Some cdata) =
    ((if fault = Some 0 \<or> fault = Some 1 then internal_server_error else access_denied), s)"
  using assms by (simp add: comments_POST_def)

lemma comments_DELETE_no_event:
  assumes "session_user_id session = Some uid" and "findEvent s eventId = None"
  shows "comments_DELETE s fault session eventId commentId =
    ((if fault = Some 0 then internal_server_error else event_not_found), s)"
  using assms by (simp add: comments_DELETE_def)

lemma comments_DELETE_no_member:
  assumes "session_user_id session = Some uid" and "findEvent s eventId = Some event"
    and "findFamilyMembership s (event_familyId event) uid = None"
  shows "comments_DELETE s fault session eventId commentId =
    ((if fault = Some 0 \<or> fault = Some 1 then internal_server_error else access_denied), s)"
  using assms by (simp add: comments_DELETE_def)

lemma comments_PUT_no_event:
  assumes "session_user_id session = Some uid" and "findEvent s eventId = None"
  shows "comments_PUT s fault session eventId commentId content True =
    ((if fault = Some 0 then internal_server_error else event_not_found), s)"
  using assms by (simp add: comments_PUT_def)

lemma comments_PUT_no_member:
  assumes "session_user_id session = Some uid" and "findEvent s eventId = Some event"
    and "findFamilyMembership s (event_familyId event) uid = None"
  shows "comments_PUT s fault session eventId commentId content True =
    ((if fault = Some 0 \<or> fault = Some 1 then internal_server_error else access_denied), s)"
  using assms by (simp add: comments_PUT_def)

lemma media_GET_no_event:
  assumes "session_user_id session = Some uid" and "findEvent s eventId = None"
  shows "media_GET s fault session eventId =
    ((if fault = Some 0 then internal_server_error else event_not_found), s)"
  using assms by (simp add: media_GET_def)

lemma media_GET_no_member:
  assumes "session_user_id session = Some uid" and "findEvent s eventId = Some event"
    and "findFamilyMembership s (event_familyId event) uid = None"
  shows "media_GET s fault session eventId =
    ((if fault = Some 0 \<or> fault = Some 1 then internal_server_error else access_denied), s)"
  using assms by (simp add: media_GET_def)

lemma media_POST_no_event:
  assumes "session_user_id session = Some uid" and "findEvent s eventId = None"
  shows "media_POST s fault newId session eventId (Some mdata) =
    ((if fault = Some 0 then internal_server_error else event_not_found), s)"
  using assms by (simp add: media_POST_def)

lemma media_POST_no_member:
  assumes "session_user_id session = Some uid" and "findEvent s eventId = Some event"
    and "findFamilyMembership s (event_familyId event) uid = None"
  shows "media_POST s fault newId session eventId (Some mdata) =
    ((if fault = Some 0 \<or> fault = Some 1 then internal_server_error else access_denied), s)"
  using assms by (simp add: media_POST_def)

lemma media_DELETE_no_event:
  assumes "session_user_id session = Some uid" and "findEvent s eventId = None"
  shows "media_DELETE s fault session eventId mediaId =
    ((if fault = Some 0 then internal_server_error else event_not_found), s)"
  using assms by (simp add: media_DELETE_def)

lemma media_DELETE_no_member:
  assumes "session_user_id session = Some uid" and "findEvent s eventId = Some event"
    and "findFamilyMembership s (event_familyId event) uid = None"
  shows "media_DELETE s fault session eventId mediaId =
    ((if fault = Some 0 \<or> fault = Some 1 then internal_server_error else access_denied), s)"
  using assms by (simp add: media_DELETE_def)

lemma privacy_GET_no_event:
  assumes "session_user_id session = Some uid" and "findEvent s eventId = None"
  shows "privacy_GET s fault session eventId =
    ((if fault = Some 0 then internal_server_error else event_not_found), s)"
  using assms by (simp add: privacy_GET_def)

lemma privacy_GET_no_member:
  assumes "session_user_id session = Some uid" and "findEvent s eventId = Some event"
    and "findFamilyMembership s (event_familyId event) uid = None"
  shows "privacy_GET s fault session eventId =
    ((if fault = Some 0 \<or> fault = Some 1 then internal_server_error else access_denied), s)"
  using assms by (simp add: privacy_GET_def)

lemma privacy_POST_no_event:
  assumes "session_user_id session = Some uid" and "findEvent s eventId = None"
  shows "privacy_POST s fault newId session eventId (Some pdata) =
    ((if fault = Some 0 then internal_server_error else event_not_found), s)"
  using assms by (simp add: privacy_POST_def)

lemma privacy_POST_no_member:
  assumes "session_user_id session = Some uid" and "findEvent s eventId = Some event"
    and "findFamilyMembership s (event_familyId event) uid = None"
  shows "privacy_POST s fault newId session eventId (Some pdata) =
    ((if fault = Some 0 \<or> fault = Some 1 then internal_server_error else access_denied), s)"
  using assms by (simp add: privacy_POST_def)

lemma privacy_DELETE_no_event:
  assumes "session_user_id session = Some uid" and "findEvent s eventId = None"
  shows "privacy_DELETE s fault session eventId userId =
    ((if fault = Some 0 then internal_server_error else event_not_found), s)"
  using assms by (simp add: privacy_DELETE_def)

lemma privacy_DELETE_no_member:
  assumes "session_user_id session = Some uid" and "findEvent s eventId = Some event"
    and "findFamilyMembership s (event_familyId event) uid = None"
  shows "privacy_DELETE s fault session eventId userId =
    ((if fault = Some 0 \<or> fault = Some 1 then internal_server_error else access_denied), s)"
  using assms by (simp add: privacy_DELETE_def)

lemma contributors_GET_no_event:
  assumes "session_user_id session = Some uid" and "findEvent s eventId = None"
  shows "contributors_GET s fault session eventId =
    ((if fault = Some 0 then internal_server_error else event_not_found), s)"
  using assms by (simp add: contributors_GET_def)

lemma contributors_GET_no_member:
  assumes "session_user_id session = Some uid" and "findEvent s eventId = Some event"
    and "findFamilyMembership s (event_familyId event) uid = None"
  shows "contributors_GET s fault session eventId =
    ((if fault = Some 0 \<or> fault = Some 1 then internal_server_error else access_denied), s)"
  using assms by (simp add: contributors_GET_def)

lemma contributors_POST_no_event:
  assumes "session_user_id session = Some uid" and "findEvent s eventId = None"
  shows "contributors_POST s fault newId session eventId (Some edata) =
    ((if fault = Some 0 then internal_server_error else event_not_found), s)"
  using assms by (simp add: contributors_POST_def)

lemma contributors_POST_no_member:
  assumes "session_user_id session = Some uid" and "findEvent s eventId = Some event"
    and "findFamilyMembership s (event_familyId event) uid = None"
  shows "contributors_POST s fault newId session eventId (Some edata) =
    ((if fault = Some 0 \<or> fault = Some 1 then internal_server_error else access_denied), s)"
  using assms by (simp add: contributors_POST_def)

lemma contributors_DELETE_no_event:
  assumes "session_user_id session = Some uid" and "findEvent s eventId = None"
  shows "contributors_DELETE uuid_in s fault session eventId userId =
    ((if fault = Some 0 then internal_server_error else event_not_found), s)"
  using assms by (simp add: contributors_DELETE_def)

lemma contributors_DELETE_no_member:
  assumes "session_user_id session = Some uid" and "findEvent s eventId = Some event"
    and "findFamilyMembership s (event_familyId event) uid = None"
  shows "contributors_DELETE uuid_in s fault session eventId userId =
    ((if fault = Some 0 \<or> fault = Some 1 then internal_server_error else access_denied), s)"
  using assms by (simp add: contributors_DELETE_def)


lemma join_member_empty:
  assumes "\<forall>e \<in> set (events s). event_id e = eventId \<longrightarrow>
             findFamilyMembership s (event_familyId e) uid = None"
  shows "joinEventFamilyMember s eventId uid = []"
    and "joinEventFamilyUserMember s eventId uid = []"
  using assms
  by (fastforce simp: joinEventFamilyMember_def joinEventFamilyUserMember_def
        findFamilyMembership_def find_None_iff)+

lemma join_event_empty:
  assumes "findEvent s eventId = None"
  shows "joinEventFamilyMember s eventId uid = []"
    and "joinEventFamilyUserMember s eventId uid = []"
  using assms
  by (auto simp: joinEventFamilyMember_def joinEventFamilyUserMember_def
        findEvent_def find_None_iff)


lemma trim_nonempty: "trim str \<noteq> [] \<Longrightarrow> str \<noteq> []"
  by (auto simp: trim_def)

lemma event_GET_no_member:
  assumes "session_user_id session = Some uid"
    and "joinEventFamilyUserMember s eventId uid = []"
  shows "event_GET s fault session eventId =
    ((if fault = Some 0 then internal_server_error else event_not_found), s)"
  using assms by (simp add: event_GET_def)

lemma event_PUT_no_member:
  assumes "session_user_id session = Some uid"
    and "joinEventFamilyMember s eventId uid = []"
    and "eb_title body = Some title" and "trim title \<noteq> []"
    and "eb_date body = Some date" and "date \<noteq> []"
  shows "event_PUT s fault session eventId body =
    ((if fault = Some 0 then internal_server_error else event_not_found), s)"
  using assms trim_nonempty [of title] by (simp add: event_PUT_def)

lemma event_DELETE_no_member:
  assumes "session_user_id session = Some uid"
    and "joinEventFamilyMember s eventId uid = []"
  shows "event_DELETE s fault session eventId =
    ((if fault = Some 0 then internal_server_error else event_not_found), s)"
  using assms by (simp add: event_DELETE_def)

lemma find_not_None: "(find P xs \<noteq> None) = (\<exists>x \<in> set xs. P x)"
  by (auto simp: find_None_iff)

section \<open>Facts about the example store\<close>

lemmas ids = alice_def bob_def carol_def dave_def fam1_def ev1_def med1_def com1_def
  fresh1_def fresh2_def missing_def mem1_def mem2_def mem3_def con1_def con2_def prv1_def

lemma example_sessions:
  "session_user_id (Some alice) = Some alice" "session_user_id (Some bob) = Some bob"
  "session_user_id (Some carol) = Some carol" "session_user_id (Some dave) = Some dave"
  by (simp_all add: session_user_id_def ids)

lemma example_nonempty: "fam1 \<noteq> []" "ev1 \<noteq> []"
  by (simp_all add: ids)

lemma example_findEvent: "findEvent example_db ev1 = Some example_event"
  by (simp add: findEvent_def example_db_def example_event_def)

lemma example_membership:
  "findFamilyMembership example_db (event_familyId example_event) alice \<noteq> None"
  "findFamilyMembership example_db (event_familyId example_event) bob \<noteq> None"
  "findFamilyMembership example_db (event_familyId example_event) carol \<noteq> None"
  "findFamilyMembership example_db (event_familyId example_event) dave = None"
  by (simp_all add: findFamilyMembership_def example_db_def example_event_def ids)

lemma example_contributor:
  "findContributor example_db ev1 dave \<noteq> None"
  "findContributor example_db ev1 bob \<noteq> None"
  "findContributor example_db ev1 carol = None"
  by (simp_all add: findContributor_def example_db_def ids)

lemma example_inviter:
  "findInviter example_db ev1 bob \<noteq> None" "findInviter example_db ev1 carol = None"
  by (simp_all add: findInviter_def example_db_def ids)

lemma example_event_fields:
  "event_familyId example_event = fam1" "event_createdById example_event = alice"
  "event_id example_event = ev1"
  by (simp_all add: example_event_def)

lemma example_users_distinct:
  "alice \<noteq> bob" "alice \<noteq> carol" "alice \<noteq> dave" "bob \<noteq> carol" "bob \<noteq> dave" "carol \<noteq> dave"
  "alice \<noteq> []" "bob \<noteq> []" "carol \<noteq> []" "dave \<noteq> []"
  by (simp_all add: ids)

lemma example_member_rows:
  "findFamilyMembership example_db fam1 alice =
     Some \<lparr>member_id = mem1, member_familyId = fam1, member_userId = alice,
            member_role = RoleAdmin\<rparr>"
  "findFamilyMembership example_db fam1 bob =
     Some \<lparr>member_id = mem2, member_familyId = fam1, member_userId = bob,
            member_role = RoleMember\<rparr>"
  "findFamilyMembership example_db fam1 carol =
     Some \<lparr>member_id = mem3, member_familyId = fam1, member_userId = carol,
            member_role = RoleMember\<rparr>"
  "findFamilyMembership example_db fam1 dave = None"
  by (simp_all add: findFamilyMembership_def example_db_def ids)

lemma example_contributor_rows:
  "findContributor example_db ev1 alice = None"
  "findContributor example_db ev1 bob =
     Some \<lparr>contributor_id = con1, contributor_eventId = ev1, contributor_userId = bob,
            contributor_role = RoleEditor, contributor_addedById = alice,
            contributor_canEdit = True, contributor_canDelete = False,
            contributor_canInvite = True\<rparr>"
  "findContributor example_db ev1 carol = None"
  by (simp_all add: findContributor_def example_db_def ids)

section \<open>What every run keeps\<close>

text \<open>
  The handlers of comments, media, privacy settings, contributors and notifications do not
  write the tables of families, members and events.
\<close>

lemma comments_POST_frame:
  "families (snd (comments_POST s fault newId session eventId cv)) = families s"
  "familyMembers (snd (comments_POST s fault newId session eventId cv)) = familyMembers s"
  "events (snd (comments_POST s fault newId session eventId cv)) = events s"
  by (simp_all add: comments_POST_def Let_def split: option.splits)

lemma comments_DELETE_frame:
  "families (snd (comments_DELETE s fault session eventId commentId)) = families s"
  "familyMembers (snd (comments_DELETE s fault session eventId commentId)) = familyMembers s"
  "events (snd (comments_DELETE s fault session eventId commentId)) = events s"
  by (simp_all add: comments_DELETE_def Let_def split: option.splits)

lemma comments_PUT_frame:
  "families (snd (comments_PUT s fault session eventId commentId content valid)) = families s"
  "familyMembers (snd (comments_PUT s fault session eventId commentId content valid)) = familyMembers s"
  "events (snd (comments_PUT s fault session eventId commentId content valid)) = events s"
  by (simp_all add: comments_PUT_def Let_def split: option.splits)

lemma media_POST_frame:
  "families (snd (media_POST s fault newId session eventId mv)) = families s"
  "familyMembers (snd (media_POST s fault newId session eventId mv)) = familyMembers s"
  "events (snd (media_POST s fault newId session eventId mv)) = events s"
  by (simp_all add: media_POST_def Let_def split: option.splits)

lemma media_DELETE_frame:
  "families (snd (media_DELETE s fault session eventId mediaId)) = families s"
  "familyMembers (snd (media_DELETE s fault session eventId mediaId)) = familyMembers s"
  "events (snd (media_DELETE s fault session eventId mediaId)) = events s"
  by (simp_all add: media_DELETE_def Let_def split: option.splits)

lemma privacy_POST_frame:
  "families (snd (privacy_POST s fault newId session eventId pv)) = families s"
  "familyMembers (snd (privacy_POST s fault newId session eventId pv)) = familyMembers s"
  "events (snd (privacy_POST s fault newId session eventId pv)) = events s"
  by (simp_all add: privacy_POST_def Let_def split: option.splits)

lemma privacy_DELETE_frame:
  "families (snd (privacy_DELETE s fault session eventId userId)) = families s"
  "familyMembers (snd (privacy_DELETE s fault session eventId userId)) = familyMembers s"
  "events (snd (privacy_DELETE s fault session eventId userId)) = events s"
  by (simp_all add: privacy_DELETE_def Let_def split: option.splits)

lemma contributors_POST_frame:
  "families (snd (contributors_POST s fault newId session eventId ev)) = families s"
  "familyMembers (snd (contributors_POST s fault newId session eventId ev)) = familyMembers s"
  "events (snd (contributors_POST s fault newId session eventId ev)) = events s"
  by (simp_all add: contributors_POST_def Let_def split: option.splits)

lemma contributors_DELETE_frame:
  "families (snd (contributors_DELETE uuid_in s fault session eventId userId)) = families s"
  "familyMembers (snd (contributors_DELETE uuid_in s fault session eventId userId)) = familyMembers s"
  "events (snd (contributors_DELETE uuid_in s fault session eventId userId)) = events s"
  by (simp_all add: contributors_DELETE_def Let_def split: option.splits)

lemma notifications_POST_frame:
  "families (snd (notifications_POST s fault newId session nv)) = families s"
  "familyMembers (snd (notifications_POST s fault newId session nv)) = familyMembers s"
  "events (snd (notifications_POST s fault newId session nv)) = events s"
  by (simp_all add: notifications_POST_def Let_def split: option.splits)

lemma notifications_PUT_frame:
  "families (snd (notifications_PUT s fault session notificationId isRead valid)) = families s"
  "familyMembers (snd (notifications_PUT s fault session notificationId isRead valid)) = familyMembers s"
  "events (snd (notifications_PUT s fault session notificationId isRead valid)) = events s"
  by (simp_all add: notifications_PUT_def Let_def split: option.splits)

lemma notifications_DELETE_frame:
  "families (snd (notifications_DELETE s fault session notificationId valid)) = families s"
  "familyMembers (snd (notifications_DELETE s fault session notificationId valid)) = familyMembers s"
  "events (snd (notifications_DELETE s fault session notificationId valid)) = events s"
  by (simp_all add: notifications_DELETE_def Let_def split: option.splits)

lemma same_tables_keep_admins:
  assumes "families t = families s" and "familyMembers t = familyMembers s"
    and "no_orphan_family s"
  shows "no_orphan_family t"
  using assms by (simp add: no_orphan_family_def has_admin_creator_def)

lemma same_tables_keep_creators:
  assumes "events t = events s" and "familyMembers t = familyMembers s"
    and "creators_are_members s"
  shows "creators_are_members t"
  using assms by (simp add: creators_are_members_def)

lemma delete_families_cascade_tables:
  "families (delete_families_cascade P s) = filter (\<lambda>f. \<not> P f) (families s)"
  "familyMembers (delete_families_cascade P s) =
     filter (\<lambda>m. member_familyId m \<notin> family_id ` {f \<in> set (families s). P f})
       (familyMembers s)"
  "events (delete_families_cascade P s) =
     filter (\<lambda>e. event_familyId e \<notin> family_id ` {f \<in> set (families s). P f}) (events s)"
  by (simp_all add: delete_families_cascade_def delete_events_cascade_def Let_def)

text \<open>No family without an admin row of its creator.\<close>

lemma families_POST_keeps_admins:
  assumes "no_orphan_family s" and "fault \<noteq> Some 1"
  shows "no_orphan_family (snd (families_POST s fault newFamilyId newMemberId session body))"
  using assms
  by (auto simp: families_POST_def no_orphan_family_def has_admin_creator_def Let_def
        split: option.splits)

lemma family_PUT_keeps_admins:
  assumes "no_orphan_family s"
  shows "no_orphan_family (snd (family_PUT s fault session familyId body))"
  using assms
  by (auto simp: family_PUT_def no_orphan_family_def has_admin_creator_def
        split: option.splits)

lemma delete_family_keeps_admins:
  assumes inv: "no_orphan_family s"
  shows "no_orphan_family (delete_families_cascade (\<lambda>f. family_id f = familyId) s)"
  unfolding no_orphan_family_def
proof
  fix f
  assume "f \<in> set (families (delete_families_cascade (\<lambda>f. family_id f = familyId) s))"
  then have f: "f \<in> set (families s)" and other: "family_id f \<noteq> familyId"
    by (simp_all add: delete_families_cascade_tables)
  from inv f obtain m where m: "m \<in> set (familyMembers s)"
    "member_familyId m = family_id f" "member_userId m = family_createdById f"
    "member_role m = RoleAdmin"
    by (auto simp: no_orphan_family_def has_admin_creator_def)
  from m(2) other have "member_familyId m \<notin>
      family_id ` {g \<in> set (families s). family_id g = familyId}"
    by auto
  with m show "has_admin_creator (delete_families_cascade (\<lambda>f. family_id f = familyId) s) f"
    unfolding has_admin_creator_def delete_families_cascade_tables
    by (intro bexI [of _ m]) simp_all
qed

lemma family_DELETE_keeps_admins:
  assumes "no_orphan_family s"
  shows "no_orphan_family (snd (family_DELETE s fault session familyId))"
  using assms delete_family_keeps_admins [of s familyId]
  by (simp add: family_DELETE_def split: option.splits)

lemma members_POST_keeps_admins:
  assumes "no_orphan_family s"
  shows "no_orphan_family (snd (members_POST toLowerCase s fault newId session familyId email))"
  using assms
  by (auto simp: members_POST_def no_orphan_family_def has_admin_creator_def Let_def
        split: option.splits list.splits)

lemma event_handlers_frame:
  "families (snd (events_POST s fault newId session body)) = families s"
  "familyMembers (snd (events_POST s fault newId session body)) = familyMembers s"
  "families (snd (event_PUT s fault session eventId body)) = families s"
  "familyMembers (snd (event_PUT s fault session eventId body)) = familyMembers s"
  "families (snd (event_DELETE s fault session eventId)) = families s"
  "familyMembers (snd (event_DELETE s fault session eventId)) = familyMembers s"
  by (simp_all add: events_POST_def event_PUT_def event_DELETE_def delete_events_cascade_def
        Let_def split: option.splits list.splits)

lemma api_step_keeps_admins:
  assumes "no_orphan_family s" and "\<not> second_insert_fails r"
  shows "no_orphan_family (api_step toLowerCase uuid_in s r)"
proof (cases r)
  case (CreateFamily fault newFamilyId newMemberId session body)
  with assms show ?thesis by (simp add: families_POST_keeps_admins)
next
  case (UpdateFamily fault session familyId body)
  with assms show ?thesis by (simp add: family_PUT_keeps_admins)
next
  case (DeleteFamily fault session familyId)
  with assms show ?thesis by (simp add: family_DELETE_keeps_admins)
next
  case (AddMember fault newId session familyId email)
  with assms show ?thesis by (simp add: members_POST_keeps_admins)
next
  case (CreateEvent fault newId session body)
  show ?thesis
    unfolding CreateEvent api_step.simps
    by (rule same_tables_keep_admins [OF _ _ assms(1)]) (simp_all add: event_handlers_frame)
next
  case (UpdateEvent fault session eventId body)
  show ?thesis
    unfolding UpdateEvent api_step.simps
    by (rule same_tables_keep_admins [OF _ _ assms(1)]) (simp_all add: event_handlers_frame)
next
  case (DeleteEvent fault session eventId)
  show ?thesis
    unfolding DeleteEvent api_step.simps
    by (rule same_tables_keep_admins [OF _ _ assms(1)]) (simp_all add: event_handlers_frame)
next
  case (PostComment fault newId session eventId validation)
  show ?thesis
    unfolding PostComment api_step.simps
    by (rule same_tables_keep_admins [OF _ _ assms(1)]) (simp_all add: comments_POST_frame)
next
  case (DeleteComment fault session eventId commentId)
  show ?thesis
    unfolding DeleteComment api_step.simps
    by (rule same_tables_keep_admins [OF _ _ assms(1)]) (simp_all add: comments_DELETE_frame)
next
  case (UpdateComment fault session eventId commentId content valid)
  show ?thesis
    unfolding UpdateComment api_step.simps
    by (rule same_tables_keep_admins [OF _ _ assms(1)]) (simp_all add: comments_PUT_frame)
next
  case (UploadMedia fault newId session eventId validation)
  show ?thesis
    unfolding UploadMedia api_step.simps
    by (rule same_tables_keep_admins [OF _ _ assms(1)]) (simp_all add: media_POST_frame)
next
  case (DeleteMedia fault session eventId mediaId)
  show ?thesis
    unfolding DeleteMedia api_step.simps
    by (rule same_tables_keep_admins [OF _ _ assms(1)]) (simp_all add: media_DELETE_frame)
next
  case (SetPrivacy fault newId session eventId validation)
  show ?thesis
    unfolding SetPrivacy api_step.simps
    by (rule same_tables_keep_admins [OF _ _ assms(1)]) (simp_all add: privacy_POST_frame)
next
  case (DeletePrivacy fault session eventId userId)
  show ?thesis
    unfolding DeletePrivacy api_step.simps
    by (rule same_tables_keep_admins [OF _ _ assms(1)]) (simp_all add: privacy_DELETE_frame)
next
  case (AddContributor fault newId session eventId validation)
  show ?thesis
    unfolding AddContributor api_step.simps
    by (rule same_tables_keep_admins [OF _ _ assms(1)]) (simp_all add: contributors_POST_frame)
next
  case (RemoveContributor fault session eventId userId)
  show ?thesis
    unfolding RemoveContributor api_step.simps
    by (rule same_tables_keep_admins [OF _ _ assms(1)]) (simp_all add: contributors_DELETE_frame)
next
  case (CreateNotification fault newId session validation)
  show ?thesis
    unfolding CreateNotification api_step.simps
    by (rule same_tables_keep_admins [OF _ _ assms(1)]) (simp_all add: notifications_POST_frame)
next
  case (UpdateNotification fault session notificationId isRead valid)
  show ?thesis
    unfolding UpdateNotification api_step.simps
    by (rule same_tables_keep_admins [OF _ _ assms(1)]) (simp_all add: notifications_PUT_frame)
next
  case (DeleteNotification fault session notificationId valid)
  show ?thesis
    unfolding DeleteNotification api_step.simps
    by (rule same_tables_keep_admins [OF _ _ assms(1)]) (simp_all add: notifications_DELETE_frame)
next
  case (WriteUsers rows)
  with assms show ?thesis by (simp add: no_orphan_family_def has_admin_creator_def)
qed

lemma run_keeps_admins:
  assumes "no_orphan_family s" and "\<forall>r \<in> set requests. \<not> second_insert_fails r"
  shows "no_orphan_family (run toLowerCase uuid_in s requests)"
  using assms unfolding run_def
proof (induction requests arbitrary: s)
  case Nil
  then show ?case by simp
next
  case (Cons r requests)
  from Cons.prems have "no_orphan_family (api_step toLowerCase uuid_in s r)"
    by (simp add: api_step_keeps_admins)
  with Cons show ?case by simp
qed

text \<open>The creator of every event has a member row in the event's family.\<close>

lemma more_members_keep_creators:
  assumes "creators_are_members s" and "events t = events s"
    and "set (familyMembers s) \<subseteq> set (familyMembers t)"
  shows "creators_are_members t"
  using assms unfolding creators_are_members_def by fastforce

lemma families_POST_keeps_creators:
  assumes "creators_are_members s"
  shows "creators_are_members (snd (families_POST s fault newFamilyId newMemberId session body))"
  by (rule more_members_keep_creators [OF assms])
    (auto simp: families_POST_def Let_def split: option.splits)

lemma family_PUT_keeps_creators:
  assumes "creators_are_members s"
  shows "creators_are_members (snd (family_PUT s fault session familyId body))"
  by (rule more_members_keep_creators [OF assms])
    (auto simp: family_PUT_def split: option.splits)

lemma members_POST_keeps_creators:
  assumes "creators_are_members s"
  shows "creators_are_members
           (snd (members_POST toLowerCase s fault newId session familyId email))"
  by (rule more_members_keep_creators [OF assms])
    (auto simp: members_POST_def Let_def split: option.splits list.splits)

lemma delete_family_keeps_creators:
  assumes inv: "creators_are_members s"
  shows "creators_are_members (delete_families_cascade P s)"
  unfolding creators_are_members_def
proof
  fix e
  assume "e \<in> set (events (delete_families_cascade P s))"
  then have e: "e \<in> set (events s)"
    and stays: "event_familyId e \<notin> family_id ` {f \<in> set (families s). P f}"
    by (simp_all add: delete_families_cascade_tables)
  from inv e obtain m where m: "m \<in> set (familyMembers s)"
    "member_familyId m = event_familyId e" "member_userId m = event_createdById e"
    by (auto simp: creators_are_members_def)
  with stays show "\<exists>m \<in> set (familyMembers (delete_families_cascade P s)).
      member_familyId m = event_familyId e \<and> member_userId m = event_createdById e"
    unfolding delete_families_cascade_tables
    by (intro bexI [of _ m]) simp_all
qed

lemma family_DELETE_keeps_creators:
  assumes "creators_are_members s"
  shows "creators_are_members (snd (family_DELETE s fault session familyId))"
  using assms delete_family_keeps_creators [of s "\<lambda>f. family_id f = familyId"]
  by (simp add: family_DELETE_def split: option.splits)

lemma events_POST_keeps_creators:
  assumes "creators_are_members s"
  shows "creators_are_members (snd (events_POST s fault newId session body))"
  using assms
  by (auto simp: events_POST_def creators_are_members_def Let_def filter_empty_conv
        split: option.splits)

lemma event_PUT_keeps_creators:
  assumes "creators_are_members s"
  shows "creators_are_members (snd (event_PUT s fault session eventId body))"
  using assms
  by (auto simp: event_PUT_def creators_are_members_def Let_def
        split: option.splits list.splits)

lemma event_DELETE_keeps_creators:
  assumes "creators_are_members s"
  shows "creators_are_members (snd (event_DELETE s fault session eventId))"
  using assms
  by (auto simp: event_DELETE_def delete_events_cascade_def creators_are_members_def Let_def
        split: option.splits list.splits)

lemma api_step_keeps_creators:
  assumes "creators_are_members s"
  shows "creators_are_members (api_step toLowerCase uuid_in s r)"
proof (cases r)
  case (CreateFamily fault newFamilyId newMemberId session body)
  with assms show ?thesis by (simp add: families_POST_keeps_creators)
next
  case (UpdateFamily fault session familyId body)
  with assms show ?thesis by (simp add: family_PUT_keeps_creators)
next
  case (DeleteFamily fault session familyId)
  with assms show ?thesis by (simp add: family_DELETE_keeps_creators)
next
  case (AddMember fault newId session familyId email)
  with assms show ?thesis by (simp add: members_POST_keeps_creators)
next
  case (CreateEvent fault newId session body)
  with assms show ?thesis by (simp add: events_POST_keeps_creators)
next
  case (UpdateEvent fault session eventId body)
  with assms show ?thesis by (simp add: event_PUT_keeps_creators)
next
  case (DeleteEvent fault session eventId)
  with assms show ?thesis by (simp add: event_DELETE_keeps_creators)
next
  case (PostComment fault newId session eventId validation)
  show ?thesis
    unfolding PostComment api_step.simps
    by (rule same_tables_keep_creators [OF _ _ assms]) (simp_all add: comments_POST_frame)
next
  case (DeleteComment fault session eventId commentId)
  show ?thesis
    unfolding DeleteComment api_step.simps
    by (rule same_tables_keep_creators [OF _ _ assms]) (simp_all add: comments_DELETE_frame)
next
  case (UpdateComment fault session eventId commentId content valid)
  show ?thesis
    unfolding UpdateComment api_step.simps
    by (rule same_tables_keep_creators [OF _ _ assms]) (simp_all add: comments_PUT_frame)
next
  case (UploadMedia fault newId session eventId validation)
  show ?thesis
    unfolding UploadMedia api_step.simps
    by (rule same_tables_keep_creators [OF _ _ assms]) (simp_all add: media_POST_frame)
next
  case (DeleteMedia fault session eventId mediaId)
  show ?thesis
    unfolding DeleteMedia api_step.simps
    by (rule same_tables_keep_creators [OF _ _ assms]) (simp_all add: media_DELETE_frame)
next
  case (SetPrivacy fault newId session eventId validation)
  show ?thesis
    unfolding SetPrivacy api_step.simps
    by (rule same_tables_keep_creators [OF _ _ assms]) (simp_all add: privacy_POST_frame)
next
  case (DeletePrivacy fault session eventId userId)
  show ?thesis
    unfolding DeletePrivacy api_step.simps
    by (rule same_tables_keep_creators [OF _ _ assms]) (simp_all add: privacy_DELETE_frame)
next
  case (AddContributor fault newId session eventId validation)
  show ?thesis
    unfolding AddContributor api_step.simps
    by (rule same_tables_keep_creators [OF _ _ assms]) (simp_all add: contributors_POST_frame)
next
  case (RemoveContributor fault session eventId userId)
  show ?thesis
    unfolding RemoveContributor api_step.simps
    by (rule same_tables_keep_creators [OF _ _ assms]) (simp_all add: contributors_DELETE_frame)
next
  case (CreateNotification fault newId session validation)
  show ?thesis
    unfolding CreateNotification api_step.simps
    by (rule same_tables_keep_creators [OF _ _ assms]) (simp_all add: notifications_POST_frame)
next
  case (UpdateNotification fault session notificationId isRead valid)
  show ?thesis
    unfolding UpdateNotification api_step.simps
    by (rule same_tables_keep_creators [OF _ _ assms]) (simp_all add: notifications_PUT_frame)
next
  case (DeleteNotification fault session notificationId valid)
  show ?thesis
    unfolding DeleteNotification api_step.simps
    by (rule same_tables_keep_creators [OF _ _ assms]) (simp_all add: notifications_DELETE_frame)
next
  case (WriteUsers rows)
  with assms show ?thesis by (simp add: creators_are_members_def)
qed

lemma run_keeps_creators:
  assumes "creators_are_members s"
  shows "creators_are_members (run toLowerCase uuid_in s requests)"
  using assms unfolding run_def
proof (induction requests arbitrary: s)
  case Nil
  then show ?case by simp
next
  case (Cons r requests)
  from Cons.prems have "creators_are_members (api_step toLowerCase uuid_in s r)"
    by (rule api_step_keeps_creators)
  with Cons show ?case by simp
qed

lemma creator_of_reachable_event_is_member:
  assumes "findEvent (run toLowerCase uuid_in empty_db requests) eventId = Some event"
  shows "findFamilyMembership (run toLowerCase uuid_in empty_db requests)
           (event_familyId event) (event_createdById event) \<noteq> None"
proof -
  have "creators_are_members empty_db"
    by (simp add: creators_are_members_def empty_db_def)
  then have inv: "creators_are_members (run toLowerCase uuid_in empty_db requests)"
    by (rule run_keeps_creators)
  from assms have "event \<in> set (events (run toLowerCase uuid_in empty_db requests))"
    by (auto simp: findEvent_def find_Some_iff)
  with inv show ?thesis
    unfolding findFamilyMembership_def find_not_None creators_are_members_def by blast
qed

text \<open>The example run.\<close>

lemma trim_examples:
  "trim (utf16 ''Jones'') = utf16 ''Jones''" "trim (utf16 ''Party'') = utf16 ''Party''"
  "utf16 ''Jones'' \<noteq> []" "utf16 ''Party'' \<noteq> []"
  by (simp_all add: trim_def is_white_space_def utf16_def)

lemma signed_up_family:
  "families_POST signed_up_db fault fam1 mem1 (Some alice) example_family =
     (if fault = Some 0 then (internal_server_error, signed_up_db)
      else if fault = Some 1
      then (internal_server_error,
            signed_up_db\<lparr>families := [\<lparr>family_id = fam1, family_name = utf16 ''Jones'',
               family_description = None, family_createdById = alice\<rparr>]\<rparr>)
      else (Success 201,
            signed_up_db\<lparr>families := [\<lparr>family_id = fam1, family_name = utf16 ''Jones'',
               family_description = None, family_createdById = alice\<rparr>],
              familyMembers := [\<lparr>member_id = mem1, member_familyId = fam1,
               member_userId = alice, member_role = RoleAdmin\<rparr>]\<rparr>))"
  by (simp add: families_POST_def example_sessions example_family_def trim_examples
        trim_or_null_def signed_up_db_def empty_db_def Let_def)

lemma example_run_result:
  "run toLowerCase uuid_in empty_db example_run = example_run_db"
proof -
  let ?family = "\<lparr>family_id = fam1, family_name = utf16 ''Jones'',
               family_description = None, family_createdById = alice\<rparr>"
  let ?admin = "\<lparr>member_id = mem1, member_familyId = fam1,
               member_userId = alice, member_role = RoleAdmin\<rparr>"
  let ?s2 = "signed_up_db\<lparr>families := [?family], familyMembers := [?admin]\<rparr>"
  have one: "empty_db\<lparr>users := example_users\<rparr> = signed_up_db"
    by (simp add: signed_up_db_def)
  have two: "snd (families_POST signed_up_db None fam1 mem1 (Some alice) example_family) = ?s2"
    by (simp add: signed_up_family)
  have three: "snd (events_POST ?s2 None ev1 (Some alice) example_event_body)
      = ?s2\<lparr>events := [example_party]\<rparr>"
    by (simp add: events_POST_def example_sessions example_event_body_def trim_examples
          trim_or_null_def string_or_def example_party_def signed_up_db_def empty_db_def
          Let_def example_nonempty)
  have four: "snd (contributors_POST (?s2\<lparr>events := [example_party]\<rparr>) None con2 (Some alice)
        ev1 (Some example_invite_dave)) = example_run_db"
    by (simp add: contributors_POST_def example_sessions findEvent_def
          findFamilyMembership_def findContributor_def example_party_def
          example_invite_dave_def example_run_db_def signed_up_db_def empty_db_def Let_def)
  show ?thesis
    by (simp add: run_def example_run_def one two three four)
qed

section \<open>Family membership comes before every action on an event\<close>

text \<open>
  C4 (amended). A signed-in user with no member row in the family of an existing event is
  refused by every handler on that event, whatever contributor or privacy rows the user
  has, and the store is left as it was. The handlers of the event's comments, media,
  privacy settings and contributors answer 403 ``Access denied'' (after the body of a
  POST or PUT passed validation); the handlers of the event itself (GET, PUT, DELETE)
  select the event through the caller's member rows and answer 404 ``Event not found''.
  A store call that throws before the membership check gives 500 instead.
\<close>

theorem non_member_is_refused:
  assumes auth: "session_user_id session = Some uid"
    and ev: "findEvent s eventId = Some event"
    and nm: "\<forall>e \<in> set (events s). event_id e = eventId \<longrightarrow>
               findFamilyMembership s (event_familyId e) uid = None"
    and body: "eb_title body = Some title" "trim title \<noteq> []"
              "eb_date body = Some date" "date \<noteq> []"
  shows "(let refused = ((if fault = Some 0 \<or> fault = Some 1 then internal_server_error
                          else access_denied), s);
              hidden = ((if fault = Some 0 then internal_server_error
                         else event_not_found), s)
          in comments_GET s fault session eventId = refused
           \<and> comments_POST s fault newId session eventId (Some cdata) = refused
           \<and> comments_DELETE s fault session eventId commentId = refused
           \<and> comments_PUT s fault session eventId commentId content True = refused
           \<and> media_GET s fault session eventId = refused
           \<and> media_POST s fault newId session eventId (Some mdata) = refused
           \<and> media_DELETE s fault session eventId mediaId = refused
           \<and> privacy_GET s fault session eventId = refused
           \<and> privacy_POST s fault newId session eventId (Some pdata) = refused
           \<and> privacy_DELETE s fault session eventId userId = refused
           \<and> contributors_GET s fault session eventId = refused
           \<and> contributors_POST s fault newId session eventId (Some edata) = refused
           \<and> contributors_DELETE uuid_in s fault session eventId userId = refused
           \<and> event_GET s fault session eventId = hidden
           \<and> event_PUT s fault session eventId body = hidden
           \<and> event_DELETE s fault session eventId = hidden)"
proof -
  from ev have "event \<in> set (events s)" and "event_id event = eventId"
    by (auto simp: findEvent_def find_Some_iff)
  with nm have no: "findFamilyMembership s (event_familyId event) uid = None"
    by blast
  note checks = auth ev no
  note join = join_member_empty [OF nm]
  show ?thesis
    unfolding Let_def
    by (intro conjI comments_GET_no_member [OF checks] comments_POST_no_member [OF checks]
          comments_DELETE_no_member [OF checks] comments_PUT_no_member [OF checks]
          media_GET_no_member [OF checks] media_POST_no_member [OF checks]
          media_DELETE_no_member [OF checks] privacy_GET_no_member [OF checks]
          privacy_POST_no_member [OF checks] privacy_DELETE_no_member [OF checks]
          contributors_GET_no_member [OF checks] contributors_POST_no_member [OF checks]
          contributors_DELETE_no_member [OF checks]
          event_GET_no_member [OF auth join(2)]
          event_PUT_no_member [OF auth join(1) body]
          event_DELETE_no_member [OF auth join(1)])
qed

text \<open>
  The theorem at Dave, who is no member of the family but holds a contributor row with
  every capability.
\<close>

theorem non_member_is_refused_witness:
  "session_user_id (Some dave) = Some dave
   \<and> findEvent example_db ev1 = Some example_event
   \<and> events example_db = [example_event]
   \<and> findFamilyMembership example_db (event_familyId example_event) dave = None
   \<and> eb_title example_event_body = Some (utf16 ''Party'') \<and> trim (utf16 ''Party'') \<noteq> []
   \<and> eb_date example_event_body = Some ''2024-07-01'' \<and> ''2024-07-01'' \<noteq> []
   \<and> findContributor example_db ev1 dave \<noteq> None
   \<and> comments_POST example_db None fresh1 (Some dave) ev1 (Some example_comment)
       = (access_denied, example_db)
   \<and> media_POST example_db None fresh1 (Some dave) ev1 (Some example_upload)
       = (access_denied, example_db)
   \<and> media_DELETE example_db None (Some dave) ev1 med1 = (access_denied, example_db)
   \<and> event_GET example_db None (Some dave) ev1 = (event_not_found, example_db)
   \<and> event_DELETE example_db None (Some dave) ev1 = (event_not_found, example_db)"
proof -
  have nm: "\<forall>e \<in> set (events example_db). event_id e = ev1 \<longrightarrow>
              findFamilyMembership example_db (event_familyId e) dave = None"
    using example_membership(4) by (simp add: example_db_def)
  have body: "eb_title example_event_body = Some (utf16 ''Party'')"
    "trim (utf16 ''Party'') \<noteq> []"
    "eb_date example_event_body = Some ''2024-07-01''" "''2024-07-01'' \<noteq> []"
    by (simp_all add: example_event_body_def trim_def is_white_space_def utf16_def)
  show ?thesis
    using non_member_is_refused [OF example_sessions(4) example_findEvent nm body,
        of None fresh1 example_comment _ _ example_upload med1]
      example_sessions(4) example_findEvent example_membership(4) body
      example_contributor(1)
    by (simp add: Let_def example_db_def)
qed

text \<open>
  C4 as stated fails for reading the single event: for Dave the answer is 404
  ``Event not found'', not ``Access denied''.
\<close>

theorem single_event_read_counterexample:
  "findFamilyMembership example_db (event_familyId example_event) dave = None
   \<and> fst (event_GET example_db None (Some dave) ev1) = Error 404 ''Event not found''
   \<and> fst (event_GET example_db None (Some dave) ev1) \<noteq> access_denied"
  by (simp add: event_GET_def joinEventFamilyUserMember_def findFamilyMembership_def
        example_db_def example_users_def example_event_def session_user_id_def
        event_not_found_def access_denied_def ids)


section \<open>The creator of an event\<close>

text \<open>
  C3. Let the signed-in user be the creator of an existing event and pass the membership
  check. Then posting a comment, uploading media, adding a contributor and deleting media
  all pass their permission check, with no contributor or privacy row asked for: no
  answer is ``Permission denied'' or ``Access denied'', whatever store call throws. When
  no store call throws, the comment and the upload are created (201), the contributor is
  added (201) unless the invited user is one already (409), and the media is deleted
  (200) unless there is no such media on the event (404).
\<close>

theorem creator_is_permitted:
  assumes auth: "session_user_id session = Some uid"
    and ev: "findEvent s eventId = Some event"
    and creator: "event_createdById event = uid"
    and mem: "findFamilyMembership s (event_familyId event) uid = Some membership"
  shows "fst (comments_POST s fault newId session eventId (Some cdata)) \<noteq> permission_denied
       \<and> fst (comments_POST s fault newId session eventId (Some cdata)) \<noteq> access_denied
       \<and> fst (media_POST s fault newId session eventId (Some mdata)) \<noteq> permission_denied
       \<and> fst (media_POST s fault newId session eventId (Some mdata)) \<noteq> access_denied
       \<and> fst (contributors_POST s fault newId session eventId (Some edata)) \<noteq> permission_denied
       \<and> fst (contributors_POST s fault newId session eventId (Some edata)) \<noteq> access_denied
       \<and> fst (media_DELETE s fault session eventId mediaId) \<noteq> permission_denied
       \<and> fst (media_DELETE s fault session eventId mediaId) \<noteq> access_denied
       \<and> fst (comments_POST s None newId session eventId (Some cdata)) = Success 201
       \<and> fst (media_POST s None newId session eventId (Some mdata)) = Success 201
       \<and> fst (contributors_POST s None newId session eventId (Some edata)) =
           (case findContributor s eventId (ed_userId edata) of
              None \<Rightarrow> Success 201
            | Some existing \<Rightarrow> Error 409 ''User is already a contributor'')
       \<and> fst (media_DELETE s None session eventId mediaId) =
           (case find (\<lambda>m. media_id m = mediaId \<and> media_eventId m = eventId) (media s) of
              None \<Rightarrow> Error 404 ''Media not found''
            | Some existing \<Rightarrow> Success 200)"
proof -
  have cp: "fst (comments_POST s f newId session eventId (Some cdata)) =
      (if f = Some 0 \<or> f = Some 1 \<or> f = Some 3 then internal_server_error else Success 201)" for f
    using assms by (simp add: comments_POST_def)
  have mp: "fst (media_POST s f newId session eventId (Some mdata)) =
      (if f = Some 0 \<or> f = Some 1 \<or> f = Some 3 then internal_server_error else Success 201)" for f
    using assms by (simp add: media_POST_def)
  have kp: "fst (contributors_POST s f newId session eventId (Some edata)) =
      (if f = Some 0 \<or> f = Some 1 \<or> f = Some 3 then internal_server_error
       else case findContributor s eventId (ed_userId edata) of
              None \<Rightarrow> if f = Some 4 then internal_server_error else Success 201
            | Some existing \<Rightarrow> Error 409 ''User is already a contributor'')" for f
    using assms by (simp add: contributors_POST_def split: option.split)
  have md: "fst (media_DELETE s f session eventId mediaId) =
      (if f = Some 0 \<or> f = Some 1 \<or> f = Some 3 then internal_server_error
       else case find (\<lambda>m. media_id m = mediaId \<and> media_eventId m = eventId) (media s) of
              None \<Rightarrow> Error 404 ''Media not found''
            | Some existing \<Rightarrow> if f = Some 4 then internal_server_error else Success 200)" for f
    using assms by (simp add: media_DELETE_def split: option.split)
  show ?thesis
    unfolding cp mp kp md
    by (simp add: responses split: option.split)
qed

text \<open>The theorem at Alice, who has neither a contributor row nor a privacy row.\<close>

theorem creator_is_permitted_witness:
  "session_user_id (Some alice) = Some alice
   \<and> findEvent example_db ev1 = Some example_event
   \<and> event_createdById example_event = alice
   \<and> findFamilyMembership example_db (event_familyId example_event) alice
       = Some \<lparr>member_id = mem1, member_familyId = fam1, member_userId = alice,
               member_role = RoleAdmin\<rparr>
   \<and> findContributor example_db ev1 alice = None
   \<and> findPrivacy example_db ev1 alice = None
   \<and> fst (comments_POST example_db None fresh1 (Some alice) ev1 (Some example_comment))
       = Success 201
   \<and> fst (media_POST example_db None fresh1 (Some alice) ev1 (Some example_upload))
       = Success 201
   \<and> fst (contributors_POST example_db None fresh1 (Some alice) ev1 (Some example_invitation))
       = Success 201
   \<and> fst (media_DELETE example_db None (Some alice) ev1 med1) = Success 200"
proof -
  have mem: "findFamilyMembership example_db (event_familyId example_event) alice
       = Some \<lparr>member_id = mem1, member_familyId = fam1, member_userId = alice,
               member_role = RoleAdmin\<rparr>"
    by (simp add: findFamilyMembership_def example_db_def example_event_def)
  have creator: "event_createdById example_event = alice"
    by (simp add: example_event_def)
  have none: "findContributor example_db ev1 alice = None" "findPrivacy example_db ev1 alice = None"
    "findContributor example_db ev1 (ed_userId example_invitation) = None"
    "find (\<lambda>m. media_id m = med1 \<and> media_eventId m = ev1) (media example_db) \<noteq> None"
    by (simp_all add: findContributor_def findPrivacy_def example_db_def example_invitation_def ids)
  show ?thesis
    using creator_is_permitted [OF example_sessions(1) example_findEvent creator mem,
        of None fresh1 example_comment example_upload example_invitation med1]
      example_sessions(1) example_findEvent creator mem none
    by (auto split: option.splits)
qed

section \<open>Privacy settings are the creator's\<close>

text \<open>
  C9. In every store reached from the empty one by requests to the API, creating or
  updating a privacy row (POST) and deleting one (DELETE) on an existing event are
  permitted to a signed-in user exactly when the user is the event's creator: the creator
  has a member row in the event's family in every such store, and passes. Anyone else is
  refused and the store stays as it is, whatever contributor rows the user has: with
  ``Permission denied'' as a member of the family, with ``Access denied'' otherwise. The
  two handlers never read the contributor table.
\<close>

theorem privacy_mutation_needs_creator:
  assumes reach: "s = run toLowerCase uuid_in empty_db requests"
    and auth: "session_user_id session = Some uid"
    and ev: "findEvent s eventId = Some event"
  shows "((\<exists>n. fst (privacy_POST s None newId session eventId (Some pdata)) = Success n)
            = (event_createdById event = uid))
       \<and> ((fst (privacy_DELETE s None session eventId userId) = Success 200
            \<or> fst (privacy_DELETE s None session eventId userId)
                 = Error 404 ''Privacy settings not found'')
            = (event_createdById event = uid))
       \<and> (event_createdById event \<noteq> uid \<longrightarrow>
             privacy_POST s None newId session eventId (Some pdata) =
               ((case findFamilyMembership s (event_familyId event) uid of
                   None \<Rightarrow> access_denied | Some membership \<Rightarrow> permission_denied), s)
           \<and> privacy_DELETE s None session eventId userId =
               ((case findFamilyMembership s (event_familyId event) uid of
                   None \<Rightarrow> access_denied | Some membership \<Rightarrow> permission_denied), s)
           \<and> snd (privacy_POST s fault newId session eventId validation) = s
           \<and> snd (privacy_DELETE s fault session eventId userId) = s)"
proof (cases "event_createdById event = uid")
  case True
  from ev have "findFamilyMembership s (event_familyId event) (event_createdById event) \<noteq> None"
    unfolding reach by (rule creator_of_reachable_event_is_member)
  with True obtain membership
    where "findFamilyMembership s (event_familyId event) uid = Some membership"
    by auto
  with True auth ev show ?thesis
    by (auto simp: privacy_POST_def privacy_DELETE_def responses split: option.splits)
next
  case False
  with auth ev show ?thesis
    by (auto simp: privacy_POST_def privacy_DELETE_def responses split: option.splits)
qed

text \<open>
  The theorem on the example run, at Alice, who created the event. Dave, whose contributor
  row has \<open>canInvite = true\<close>, is refused.
\<close>

lemma example_run_facts:
  "findEvent example_run_db ev1 = Some example_party"
  "event_createdById example_party = alice" "event_familyId example_party = fam1"
  "findFamilyMembership example_run_db fam1 alice =
     Some \<lparr>member_id = mem1, member_familyId = fam1, member_userId = alice,
            member_role = RoleAdmin\<rparr>"
  "findFamilyMembership example_run_db fam1 dave = None"
  "findInviter example_run_db ev1 dave \<noteq> None"
  "findPrivacy example_run_db ev1 carol = None"
  by (simp_all add: findEvent_def findFamilyMembership_def findInviter_def findPrivacy_def
        example_run_db_def example_party_def ids)

theorem privacy_mutation_needs_creator_witness:
  "(\<forall>toLowerCase uuid_in. example_run_db = run toLowerCase uuid_in empty_db example_run)
   \<and> session_user_id (Some alice) = Some alice
   \<and> findEvent example_run_db ev1 = Some example_party
   \<and> event_createdById example_party = alice
   \<and> fst (privacy_POST example_run_db None prv1 (Some alice) ev1 (Some example_settings))
       = Success 201
   \<and> findInviter example_run_db ev1 dave \<noteq> None
   \<and> privacy_POST example_run_db None prv1 (Some dave) ev1 (Some example_settings)
       = (access_denied, example_run_db)"
proof -
  have reach: "example_run_db = run toLowerCase uuid_in empty_db example_run"
    for toLowerCase uuid_in
    by (simp add: example_run_result)
  have created: "fst (privacy_POST example_run_db None prv1 (Some alice) ev1
      (Some example_settings)) = Success 201"
    by (simp add: privacy_POST_def example_sessions example_run_facts example_settings_def)
  have dave: "privacy_POST example_run_db None prv1 (Some dave) ev1 (Some example_settings)
       = (access_denied, example_run_db)"
    using privacy_mutation_needs_creator [OF reach example_sessions(4) example_run_facts(1),
        where newId = prv1 and pdata = example_settings]
    by (simp add: example_run_facts example_users_distinct)
  show ?thesis
    using privacy_mutation_needs_creator [OF reach example_sessions(1) example_run_facts(1),
        where newId = prv1 and pdata = example_settings]
      reach created dave example_sessions(1) example_run_facts
    by simp
qed

section \<open>Notifications\<close>

text \<open>
  C10. For a signed-in user and a body that passes validation, the notification endpoint
  inserts one row whose \<open>userId\<close> is the caller's id and answers 201. Whatever the
  request, every notification row in the store afterwards was there before or belongs to
  the caller.
\<close>

theorem notification_belongs_to_caller:
  assumes auth: "session_user_id session = Some uid"
  shows "notifications_POST s None newId session (Some data) =
           (Success 201,
            s\<lparr>notifications := notifications s @
              [\<lparr>notification_id = newId, notification_userId = uid,
                notification_type = nd_type data, notification_title = nd_title data,
                notification_message = nd_message data,
                notification_referenceId = nd_referenceId data,
                notification_referenceType = nd_referenceType data,
                notification_isRead = False\<rparr>]\<rparr>)
       \<and> (\<forall>n \<in> set (notifications (snd (notifications_POST s fault newId session validation))).
             n \<in> set (notifications s) \<or> notification_userId n = uid)"
  using assms
  by (auto simp: notifications_POST_def split: option.splits)

text \<open>The theorem at Bob, on a store without notifications.\<close>

theorem notification_belongs_to_caller_witness:
  "session_user_id (Some bob) = Some bob
   \<and> map notification_userId
       (notifications (snd (notifications_POST example_db None fresh1 (Some bob)
          (Some example_notification)))) = [bob]
   \<and> fst (notifications_POST example_db None fresh1 (Some bob) (Some example_notification))
       = Success 201"
  using notification_belongs_to_caller [OF example_sessions(2), of example_db fresh1
      example_notification None None] example_sessions(2)
  by (simp add: example_db_def)

section \<open>Deleting media\<close>

text \<open>
  C5 (amended). For a signed-in member of the family of an existing event, deleting a
  media item passes the permission check if and only if the user is the event's creator
  or has a contributor row for the event with \<open>canDelete = true\<close>. The check runs before
  the media row is read, so who uploaded the item plays no part: replacing the media
  table by any other leaves the decision as it is.
\<close>

theorem media_delete_permission:
  assumes auth: "session_user_id session = Some uid"
    and ev: "findEvent s eventId = Some event"
    and mem: "findFamilyMembership s (event_familyId event) uid = Some membership"
  shows "media_DELETE s None session eventId mediaId =
           (if event_createdById event = uid
               \<or> (\<exists>c \<in> set (eventContributors s). contributor_eventId c = eventId
                     \<and> contributor_userId c = uid \<and> contributor_canDelete c)
            then (case find (\<lambda>m. media_id m = mediaId \<and> media_eventId m = eventId) (media s) of
                    None \<Rightarrow> (Error 404 ''Media not found'', s)
                  | Some existing \<Rightarrow>
                      (Success 200, s\<lparr>media := filter (\<lambda>m. media_id m \<noteq> mediaId) (media s)\<rparr>))
            else (permission_denied, s))
       \<and> (fst (media_DELETE (s\<lparr>media := rows\<rparr>) None session eventId mediaId) = permission_denied)
           = (fst (media_DELETE s None session eventId mediaId) = permission_denied)"
proof -
  let ?may = "find (\<lambda>c. contributor_eventId c = eventId \<and> contributor_userId c = uid
                       \<and> contributor_canDelete c = True) (eventContributors s) \<noteq> None"
  have may: "?may = (\<exists>c \<in> set (eventContributors s). contributor_eventId c = eventId
                     \<and> contributor_userId c = uid \<and> contributor_canDelete c)"
    unfolding find_not_None by simp
  have ev': "findEvent (s\<lparr>media := rows\<rparr>) eventId = Some event"
    and mem': "findFamilyMembership (s\<lparr>media := rows\<rparr>) (event_familyId event) uid
                 = Some membership"
    using ev mem by (simp_all add: findEvent_def findFamilyMembership_def)
  have one: "media_DELETE s None session eventId mediaId =
           (if event_createdById event = uid \<or> ?may
            then (case find (\<lambda>m. media_id m = mediaId \<and> media_eventId m = eventId) (media s) of
                    None \<Rightarrow> (Error 404 ''Media not found'', s)
                  | Some existing \<Rightarrow>
                      (Success 200, s\<lparr>media := filter (\<lambda>m. media_id m \<noteq> mediaId) (media s)\<rparr>))
            else (permission_denied, s))"
    using auth ev mem by (simp add: media_DELETE_def split: option.split)
  have two: "(fst (media_DELETE (s\<lparr>media := rows\<rparr>) None session eventId mediaId)
                = permission_denied)
           = (\<not> (event_createdById event = uid \<or> ?may))"
    using auth ev' mem'
    by (simp add: media_DELETE_def permission_denied_def split: option.split)
  have three: "(fst (media_DELETE s None session eventId mediaId) = permission_denied)
           = (\<not> (event_createdById event = uid \<or> ?may))"
    using auth ev mem
    by (simp add: media_DELETE_def permission_denied_def split: option.split)
  show ?thesis
    using one two three unfolding may by simp
qed

text \<open>The theorem at Dave, made a member of the family; his contributor row has
  \<open>canDelete = true\<close>.\<close>

theorem media_delete_permission_witness:
  "session_user_id (Some dave) = Some dave
   \<and> findEvent (example_db\<lparr>familyMembers := [\<lparr>member_id = mem1, member_familyId = fam1,
        member_userId = dave, member_role = RoleMember\<rparr>]\<rparr>) ev1 = Some example_event
   \<and> findFamilyMembership (example_db\<lparr>familyMembers := [\<lparr>member_id = mem1,
        member_familyId = fam1, member_userId = dave, member_role = RoleMember\<rparr>]\<rparr>)
        (event_familyId example_event) dave
       = Some \<lparr>member_id = mem1, member_familyId = fam1, member_userId = dave,
               member_role = RoleMember\<rparr>
   \<and> event_createdById example_event \<noteq> dave
   \<and> fst (media_DELETE (example_db\<lparr>familyMembers := [\<lparr>member_id = mem1,
        member_familyId = fam1, member_userId = dave, member_role = RoleMember\<rparr>]\<rparr>)
        None (Some dave) ev1 med1) = Success 200"
proof -
  let ?s = "example_db\<lparr>familyMembers := [\<lparr>member_id = mem1, member_familyId = fam1,
        member_userId = dave, member_role = RoleMember\<rparr>]\<rparr>"
  have ev: "findEvent ?s ev1 = Some example_event"
    by (simp add: findEvent_def example_db_def example_event_def)
  have mem: "findFamilyMembership ?s (event_familyId example_event) dave
       = Some \<lparr>member_id = mem1, member_familyId = fam1, member_userId = dave,
               member_role = RoleMember\<rparr>"
    by (simp add: findFamilyMembership_def example_event_def)
  have other: "event_createdById example_event \<noteq> dave"
    by (simp add: example_event_def ids)
  have rows: "\<exists>c \<in> set (eventContributors ?s). contributor_eventId c = ev1
                     \<and> contributor_userId c = dave \<and> contributor_canDelete c"
    "find (\<lambda>m. media_id m = med1 \<and> media_eventId m = ev1) (media ?s) \<noteq> None"
    by (simp_all add: example_db_def ids)
  show ?thesis
    using media_delete_permission [OF example_sessions(4) ev mem, of med1]
      example_sessions(4) ev mem other rows
    by (auto split: option.splits)
qed

text \<open>
  C5 as stated fails for an uploader: Bob uploaded the photo, is a member and a
  contributor without \<open>canDelete\<close>, and is refused.
\<close>

theorem uploader_delete_counterexample:
  "map media_uploadedById (filter (\<lambda>m. media_id m = med1) (media example_db)) = [bob]
   \<and> findFamilyMembership example_db (event_familyId example_event) bob \<noteq> None
   \<and> findContributor example_db ev1 bob \<noteq> None
   \<and> media_DELETE example_db None (Some bob) ev1 med1 = (permission_denied, example_db)"
  by (simp add: media_DELETE_def findEvent_def findFamilyMembership_def findContributor_def
        example_db_def example_event_def session_user_id_def ids)

section \<open>Removing the creator from the contributors\<close>

text \<open>
  The delete statement removes the rows of the uuid the store reads from the body's
  \<open>userId\<close>, while the rule about the creator compares the text: a text that the store
  reads as the creator's id without being the creator's id as the store returns it passes
  the rule, and the creator's contributor rows are deleted.
\<close>

lemma other_spelling_passes_the_rule:
  assumes "session_user_id session = Some uid"
    and "findEvent s eventId = Some event"
    and "findFamilyMembership s (event_familyId event) uid = Some membership"
    and "event_createdById event = uid \<or> findInviter s eventId uid \<noteq> None"
    and "userId \<noteq> event_createdById event"
    and "uuid_in userId = Some (event_createdById event)"
  shows "contributors_DELETE uuid_in s None session eventId userId =
           (Success 200,
            s\<lparr>eventContributors :=
                filter (\<lambda>c. \<not> (contributor_eventId c = eventId
                                \<and> contributor_userId c = event_createdById event))
                  (eventContributors s)\<rparr>)"
  using assms by (auto simp: contributors_DELETE_def)

text \<open>
  C6 (amended). A request to remove the creator of an existing event from its contributors,
  naming the creator by the id the store returns for him, never succeeds and never changes
  the store, whoever sends it. The fixed error ``Cannot remove event creator'' (400) is
  the answer to a family member who passes the permission check (the creator, or a
  contributor with \<open>canInvite = true\<close>); a member who does not pass it gets
  ``Permission denied'' (403) before the rule is reached.
\<close>

theorem creator_is_never_removed:
  assumes ev: "findEvent s eventId = Some event"
    and target: "event_createdById event = userId"
  shows "snd (contributors_DELETE uuid_in s fault session eventId userId) = s
       \<and> (\<forall>n. fst (contributors_DELETE uuid_in s fault session eventId userId) \<noteq> Success n)
       \<and> (session_user_id session = Some uid \<longrightarrow>
            findFamilyMembership s (event_familyId event) uid \<noteq> None \<longrightarrow>
            contributors_DELETE uuid_in s None session eventId userId =
              (if event_createdById event = uid \<or> findInviter s eventId uid \<noteq> None
               then (Error 400 ''Cannot remove event creator'', s)
               else (permission_denied, s)))"
  using assms
  by (auto simp: contributors_DELETE_def responses split: option.splits)

text \<open>The theorem at Bob, a contributor with \<open>canInvite = true\<close>.\<close>

theorem creator_is_never_removed_witness:
  "\<forall>uuid_in.
     findEvent example_db ev1 = Some example_event
   \<and> event_createdById example_event = alice
   \<and> session_user_id (Some bob) = Some bob
   \<and> findFamilyMembership example_db (event_familyId example_event) bob \<noteq> None
   \<and> findInviter example_db ev1 bob \<noteq> None
   \<and> contributors_DELETE uuid_in example_db None (Some bob) ev1 alice
       = (Error 400 ''Cannot remove event creator'', example_db)"
proof
  fix uuid_in :: "string \<Rightarrow> uuid option"
  have target: "event_createdById example_event = alice"
    by (simp add: example_event_def)
  show "findEvent example_db ev1 = Some example_event
   \<and> event_createdById example_event = alice
   \<and> session_user_id (Some bob) = Some bob
   \<and> findFamilyMembership example_db (event_familyId example_event) bob \<noteq> None
   \<and> findInviter example_db ev1 bob \<noteq> None
   \<and> contributors_DELETE uuid_in example_db None (Some bob) ev1 alice
       = (Error 400 ''Cannot remove event creator'', example_db)"
    using creator_is_never_removed [OF example_findEvent target,
        where uuid_in = uuid_in and fault = None and session = "Some bob" and uid = bob]
      example_findEvent target example_sessions(2) example_membership(2) example_inviter(1)
    by simp
qed

text \<open>
  C6 as stated fails for a user without the invite permission: Carol, a plain member,
  gets ``Permission denied'', not the fixed error.
\<close>

theorem remove_creator_counterexample:
  "\<forall>uuid_in.
     event_createdById example_event = alice
   \<and> findFamilyMembership example_db (event_familyId example_event) carol \<noteq> None
   \<and> contributors_DELETE uuid_in example_db None (Some carol) ev1 alice
       = (Error 403 ''Permission denied'', example_db)
   \<and> fst (contributors_DELETE uuid_in example_db None (Some carol) ev1 alice)
       \<noteq> Error 400 ''Cannot remove event creator''"
  by (simp add: contributors_DELETE_def example_sessions example_findEvent
        example_event_fields example_member_rows example_inviter example_users_distinct
        permission_denied_def)

section \<open>Updating a comment\<close>

text \<open>
  C8 (amended). A signed-in user who is not the author of the comment cannot update it: the
  request never succeeds and the store, the comment with it, stays as it is, also for a
  contributor with \<open>canEdit = true\<close>. For a member of the family of the existing event
  the answer is 404 ``Comment not found or access denied'' (the comment is looked up by
  id, event and author together); for a non-member it is 403 ``Access denied''.
\<close>

theorem comment_update_only_by_author:
  assumes auth: "session_user_id session = Some uid"
    and other: "\<forall>c \<in> set (comments s). comment_id c = commentId \<and> comment_eventId c = eventId
                  \<longrightarrow> comment_authorId c \<noteq> uid"
  shows "snd (comments_PUT s fault session eventId commentId content valid) = s
       \<and> (\<forall>n. fst (comments_PUT s fault session eventId commentId content valid) \<noteq> Success n)
       \<and> (findEvent s eventId = Some event \<longrightarrow>
            comments_PUT s None session eventId commentId content True =
              (case findFamilyMembership s (event_familyId event) uid of
                 None \<Rightarrow> (access_denied, s)
               | Some membership \<Rightarrow> (Error 404 ''Comment not found or access denied'', s)))"
proof -
  have "find (\<lambda>c. comment_id c = commentId \<and> comment_eventId c = eventId
                  \<and> comment_authorId c = uid) (comments s) = None"
    using other by (auto simp: find_None_iff)
  then show ?thesis
    using auth
    by (auto simp: comments_PUT_def responses split: option.splits)
qed

text \<open>The theorem at Bob, a contributor with \<open>canEdit = true\<close>, on Alice's comment.\<close>

theorem comment_update_only_by_author_witness:
  "session_user_id (Some bob) = Some bob
   \<and> map comment_authorId (comments example_db) = [alice] \<and> alice \<noteq> bob
   \<and> findEvent example_db ev1 = Some example_event
   \<and> map contributor_canEdit (filter (\<lambda>c. contributor_userId c = bob)
        (eventContributors example_db)) = [True]
   \<and> comments_PUT example_db None (Some bob) ev1 com1 ''Edited'' True
       = (Error 404 ''Comment not found or access denied'', example_db)"
proof -
  have other: "\<forall>c \<in> set (comments example_db). comment_id c = com1 \<and> comment_eventId c = ev1
                  \<longrightarrow> comment_authorId c \<noteq> bob"
    by (simp add: example_db_def ids)
  have facts: "map comment_authorId (comments example_db) = [alice]" "alice \<noteq> bob"
    "map contributor_canEdit (filter (\<lambda>c. contributor_userId c = bob)
        (eventContributors example_db)) = [True]"
    by (simp_all add: example_db_def ids)
  show ?thesis
    using comment_update_only_by_author [OF example_sessions(2) other,
        where fault = None and content = "''Edited''" and valid = True
          and event = example_event]
      example_sessions(2) example_findEvent example_membership(2) facts
    by (auto split: option.splits)
qed

text \<open>
  C8 as stated fails in the status: Bob, neither author nor creator, gets 404 and not 403.
\<close>

theorem comment_update_status_counterexample:
  "map comment_authorId (filter (\<lambda>c. comment_id c = com1) (comments example_db)) = [alice]
   \<and> event_createdById example_event = alice \<and> alice \<noteq> bob
   \<and> map contributor_canEdit (filter (\<lambda>c. contributor_userId c = bob)
        (eventContributors example_db)) = [True]
   \<and> fst (comments_PUT example_db None (Some bob) ev1 com1 ''Edited'' True)
       = Error 404 ''Comment not found or access denied''"
  by (simp add: comments_PUT_def findEvent_def findFamilyMembership_def
        example_db_def example_event_def session_user_id_def ids)

section \<open>Creating a family\<close>

text \<open>
  C7 (amended). Family creation is two separate inserts, the family row first and the
  creator's admin member row second, with no transaction around them. When both inserts
  succeed the answer is 201 and both rows are in the store; when the first insert throws
  the store is unchanged. In every state reached from the empty store by requests in
  which no family creation loses its second insert, no family row is without an admin
  member row of its creator.
\<close>

theorem family_creation_two_inserts:
  assumes clean: "\<forall>r \<in> set requests. \<not> second_insert_fails r"
  shows "no_orphan_family (run toLowerCase uuid_in empty_db requests)
       \<and> (session_user_id session = Some uid \<longrightarrow> fb_name body = Some name \<longrightarrow>
            trim name \<noteq> [] \<longrightarrow>
            families_POST s None newFamilyId newMemberId session body =
              (Success 201,
               s\<lparr>families := families s @
                    [\<lparr>family_id = newFamilyId, family_name = trim name,
                      family_description = trim_or_null (fb_description body),
                      family_createdById = uid\<rparr>],
                  familyMembers := familyMembers s @
                    [\<lparr>member_id = newMemberId, member_familyId = newFamilyId,
                      member_userId = uid, member_role = RoleAdmin\<rparr>]\<rparr>)
          \<and> families_POST s (Some 0) newFamilyId newMemberId session body =
              (internal_server_error, s))"
proof -
  have "no_orphan_family empty_db"
    by (simp add: no_orphan_family_def empty_db_def)
  then have "no_orphan_family (run toLowerCase uuid_in empty_db requests)"
    using clean by (rule run_keeps_admins)
  moreover have "families_POST s None newFamilyId newMemberId session body =
              (Success 201,
               s\<lparr>families := families s @
                    [\<lparr>family_id = newFamilyId, family_name = trim name,
                      family_description = trim_or_null (fb_description body),
                      family_createdById = uid\<rparr>],
                  familyMembers := familyMembers s @
                    [\<lparr>member_id = newMemberId, member_familyId = newFamilyId,
                      member_userId = uid, member_role = RoleAdmin\<rparr>]\<rparr>)
          \<and> families_POST s (Some 0) newFamilyId newMemberId session body =
              (internal_server_error, s)"
    if "session_user_id session = Some uid" "fb_name body = Some name" "trim name \<noteq> []"
    using that trim_nonempty [of name] by (simp add: families_POST_def Let_def)
  ultimately show ?thesis by blast
qed

text \<open>
  The theorem on the example run: Alice, who has signed up, creates the family, and the
  store holds the family row and her admin row.
\<close>

theorem family_creation_two_inserts_witness:
  "\<forall>toLowerCase uuid_in.
     \<not> second_insert_fails (WriteUsers example_users)
   \<and> \<not> second_insert_fails (CreateFamily None fam1 mem1 (Some alice) example_family)
   \<and> \<not> second_insert_fails (CreateEvent None ev1 (Some alice) example_event_body)
   \<and> \<not> second_insert_fails (AddContributor None con2 (Some alice) ev1 (Some example_invite_dave))
   \<and> map user_id (users signed_up_db) = [alice, bob, carol, dave]
   \<and> fst (families_POST signed_up_db None fam1 mem1 (Some alice) example_family) = Success 201
   \<and> run toLowerCase uuid_in empty_db example_run = example_run_db
   \<and> no_orphan_family example_run_db
   \<and> families example_run_db
       = [\<lparr>family_id = fam1, family_name = utf16 ''Jones'', family_description = None,
           family_createdById = alice\<rparr>]
   \<and> familyMembers example_run_db
       = [\<lparr>member_id = mem1, member_familyId = fam1, member_userId = alice,
           member_role = RoleAdmin\<rparr>]"
proof (intro allI)
  fix toLowerCase :: "jsstring \<Rightarrow> jsstring" and uuid_in :: "string \<Rightarrow> uuid option"
  have clean: "\<forall>r \<in> set example_run. \<not> second_insert_fails r"
    by (simp add: example_run_def)
  have name: "fb_name example_family = Some (utf16 ''Jones'')"
    by (simp add: example_family_def)
  have name': "trim (utf16 ''Jones'') \<noteq> []"
    by (simp add: trim_examples)
  have users: "map user_id (users signed_up_db) = [alice, bob, carol, dave]"
    by (simp add: signed_up_db_def example_users_def)
  have created: "fst (families_POST signed_up_db None fam1 mem1 (Some alice) example_family)
      = Success 201"
    using family_creation_two_inserts [OF clean, where session = "Some alice" and uid = alice
        and body = example_family and name = "utf16 ''Jones''" and s = signed_up_db
        and newFamilyId = fam1 and newMemberId = mem1] example_sessions(1) name name'
    by simp
  have rows: "families example_run_db
       = [\<lparr>family_id = fam1, family_name = utf16 ''Jones'', family_description = None,
           family_createdById = alice\<rparr>]"
    "familyMembers example_run_db
       = [\<lparr>member_id = mem1, member_familyId = fam1, member_userId = alice,
           member_role = RoleAdmin\<rparr>]"
    by (simp_all add: example_run_db_def)
  have "no_orphan_family example_run_db"
    using family_creation_two_inserts [OF clean, of toLowerCase uuid_in]
    by (simp add: example_run_result)
  with users created rows
  show "\<not> second_insert_fails (WriteUsers example_users)
   \<and> \<not> second_insert_fails (CreateFamily None fam1 mem1 (Some alice) example_family)
   \<and> \<not> second_insert_fails (CreateEvent None ev1 (Some alice) example_event_body)
   \<and> \<not> second_insert_fails (AddContributor None con2 (Some alice) ev1 (Some example_invite_dave))
   \<and> map user_id (users signed_up_db) = [alice, bob, carol, dave]
   \<and> fst (families_POST signed_up_db None fam1 mem1 (Some alice) example_family) = Success 201
   \<and> run toLowerCase uuid_in empty_db example_run = example_run_db
   \<and> no_orphan_family example_run_db
   \<and> families example_run_db
       = [\<lparr>family_id = fam1, family_name = utf16 ''Jones'', family_description = None,
           family_createdById = alice\<rparr>]
   \<and> familyMembers example_run_db
       = [\<lparr>member_id = mem1, member_familyId = fam1, member_userId = alice,
           member_role = RoleAdmin\<rparr>]"
    by (simp add: example_run_result)
qed

text \<open>
  C7 as stated fails when the second insert throws. Alice has signed up, so the insert of
  the family row refers to her user row and succeeds; the insert of the member row throws,
  the answer is 500, and the family row stays in the store with no member row at all.
\<close>

theorem orphaned_family_counterexample:
  "map user_id (users signed_up_db) = [alice, bob, carol, dave]
   \<and> no_orphan_family signed_up_db
   \<and> families_POST signed_up_db (Some 1) fam1 mem1 (Some alice) example_family =
       (Error 500 ''Internal server error'',
        signed_up_db\<lparr>families := [\<lparr>family_id = fam1, family_name = utf16 ''Jones'',
           family_description = None, family_createdById = alice\<rparr>]\<rparr>)
   \<and> familyMembers (snd (families_POST signed_up_db (Some 1) fam1 mem1 (Some alice)
        example_family)) = []
   \<and> \<not> no_orphan_family
         (snd (families_POST signed_up_db (Some 1) fam1 mem1 (Some alice) example_family))
   \<and> (\<forall>toLowerCase uuid_in.
         run toLowerCase uuid_in empty_db
           [WriteUsers example_users,
            CreateFamily (Some 1) fam1 mem1 (Some alice) example_family]
         = snd (families_POST signed_up_db (Some 1) fam1 mem1 (Some alice) example_family))"
proof -
  let ?orphan = "signed_up_db\<lparr>families := [\<lparr>family_id = fam1, family_name = utf16 ''Jones'',
           family_description = None, family_createdById = alice\<rparr>]\<rparr>"
  have failed: "families_POST signed_up_db (Some 1) fam1 mem1 (Some alice) example_family =
       (Error 500 ''Internal server error'', ?orphan)"
    by (simp add: signed_up_family internal_server_error_def)
  have users: "map user_id (users signed_up_db) = [alice, bob, carol, dave]"
    and before: "no_orphan_family signed_up_db"
    and members: "familyMembers ?orphan = []"
    and after: "\<not> no_orphan_family ?orphan"
    by (simp_all add: signed_up_db_def empty_db_def example_users_def no_orphan_family_def
          has_admin_creator_def)
  have "run toLowerCase uuid_in empty_db
           [WriteUsers example_users,
            CreateFamily (Some 1) fam1 mem1 (Some alice) example_family] = ?orphan"
    for toLowerCase uuid_in
    using failed by (simp add: run_def signed_up_db_def)
  with failed users before members after show ?thesis
    by simp
qed

section \<open>The privacy registry and the content actions\<close>

lemma queries_ignore_privacy:
  "findEvent (s\<lparr>eventPrivacy := rows\<rparr>) = findEvent s"
  "findFamilyMembership (s\<lparr>eventPrivacy := rows\<rparr>) = findFamilyMembership s"
  "findContributor (s\<lparr>eventPrivacy := rows\<rparr>) = findContributor s"
  by (simp_all add: findEvent_def findFamilyMembership_def findContributor_def fun_eq_iff)

lemma comments_POST_ignores_privacy:
  "fst (comments_POST (s\<lparr>eventPrivacy := rows\<rparr>) fault newId session eventId validation)
     = fst (comments_POST s fault newId session eventId validation)"
  by (auto simp: comments_POST_def queries_ignore_privacy Let_def split: option.splits)

lemma media_POST_ignores_privacy:
  "fst (media_POST (s\<lparr>eventPrivacy := rows\<rparr>) fault newId session eventId validation)
     = fst (media_POST s fault newId session eventId validation)"
  by (auto simp: media_POST_def queries_ignore_privacy Let_def split: option.splits)

text \<open>
  C2 (amended). The decision on posting a comment and on uploading media reads the event,
  the caller's member row, the event's creator and the caller's contributor row, in this
  order: no session 401, no event 404, no member row 403 ``Access denied'', creator or
  contributor 201, anyone else 403 ``Permission denied''. The privacy registry is not
  read: two stores that differ only in their EventPrivacy rows give the same answer to
  every such request.
\<close>

theorem content_decision_ignores_privacy:
  "fst (comments_POST (s\<lparr>eventPrivacy := rows\<rparr>) fault newId session eventId cv)
     = fst (comments_POST s fault newId session eventId cv)
   \<and> fst (media_POST (s\<lparr>eventPrivacy := rows\<rparr>) fault newId session eventId mv)
     = fst (media_POST s fault newId session eventId mv)
   \<and> fst (comments_POST s None newId (Some uid) eventId (Some cdata)) =
       (if uid = [] then unauthorized
        else case findEvent s eventId of
          None \<Rightarrow> event_not_found
        | Some event \<Rightarrow>
            (case findFamilyMembership s (event_familyId event) uid of
               None \<Rightarrow> access_denied
             | Some membership \<Rightarrow>
                 if event_createdById event = uid then Success 201
                 else (case findContributor s eventId uid of
                         None \<Rightarrow> permission_denied
                       | Some contributor \<Rightarrow> Success 201)))
   \<and> fst (media_POST s None newId (Some uid) eventId (Some mdata)) =
       (if uid = [] then unauthorized
        else case findEvent s eventId of
          None \<Rightarrow> event_not_found
        | Some event \<Rightarrow>
            (case findFamilyMembership s (event_familyId event) uid of
               None \<Rightarrow> access_denied
             | Some membership \<Rightarrow>
                 if event_createdById event = uid then Success 201
                 else (case findContributor s eventId uid of
                         None \<Rightarrow> permission_denied
                       | Some contributor \<Rightarrow> Success 201)))"
proof -
  have "fst (comments_POST s None newId (Some uid) eventId (Some cdata)) =
       (if uid = [] then unauthorized
        else case findEvent s eventId of
          None \<Rightarrow> event_not_found
        | Some event \<Rightarrow>
            (case findFamilyMembership s (event_familyId event) uid of
               None \<Rightarrow> access_denied
             | Some membership \<Rightarrow>
                 if event_createdById event = uid then Success 201
                 else (case findContributor s eventId uid of
                         None \<Rightarrow> permission_denied
                       | Some contributor \<Rightarrow> Success 201)))"
    by (simp add: comments_POST_def session_user_id_def Let_def split: option.splits)
  moreover have "fst (media_POST s None newId (Some uid) eventId (Some mdata)) =
       (if uid = [] then unauthorized
        else case findEvent s eventId of
          None \<Rightarrow> event_not_found
        | Some event \<Rightarrow>
            (case findFamilyMembership s (event_familyId event) uid of
               None \<Rightarrow> access_denied
             | Some membership \<Rightarrow>
                 if event_createdById event = uid then Success 201
                 else (case findContributor s eventId uid of
                         None \<Rightarrow> permission_denied
                       | Some contributor \<Rightarrow> Success 201)))"
    by (simp add: media_POST_def session_user_id_def Let_def split: option.splits)
  ultimately show ?thesis
    by (simp only: comments_POST_ignores_privacy media_POST_ignores_privacy simp_thms)
qed

text \<open>The theorem at Bob, with and without his privacy row, and at Carol.\<close>

theorem content_decision_ignores_privacy_witness:
  "fst (comments_POST (example_db\<lparr>eventPrivacy := []\<rparr>) None fresh1 (Some bob) ev1
          (Some example_comment)) = Success 201
   \<and> fst (comments_POST example_db None fresh1 (Some bob) ev1 (Some example_comment))
       = Success 201
   \<and> fst (media_POST example_db None fresh1 (Some carol) ev1 (Some example_upload))
       = permission_denied"
  using content_decision_ignores_privacy [where s = example_db and rows = "[]"
      and fault = None and newId = fresh1 and session = "Some bob" and eventId = ev1
      and cv = "Some example_comment" and uid = bob and cdata = example_comment]
    content_decision_ignores_privacy [where s = example_db and newId = fresh1
      and eventId = ev1 and uid = carol and mdata = example_upload]
  by (simp add: example_findEvent example_event_fields example_users_distinct
        example_member_rows example_contributor_rows)

text \<open>
  C2 as stated fails: Bob's privacy row has \<open>canComment\<close> and \<open>canUploadMedia\<close> false, and
  his comment and his upload are accepted all the same; no pair of stores that differ only
  in EventPrivacy rows gives two different answers.
\<close>

theorem privacy_registry_counterexample:
  "map privacy_canComment
     (filter (\<lambda>p. privacy_eventId p = ev1 \<and> privacy_userId p = bob) (eventPrivacy example_db))
     = [False]
   \<and> map privacy_canUploadMedia
     (filter (\<lambda>p. privacy_eventId p = ev1 \<and> privacy_userId p = bob) (eventPrivacy example_db))
     = [False]
   \<and> fst (comments_POST example_db None fresh1 (Some bob) ev1 (Some example_comment))
       = Success 201
   \<and> fst (media_POST example_db None fresh1 (Some bob) ev1 (Some example_upload))
       = Success 201
   \<and> \<not> (\<exists>s rows fault newId session eventId validation.
          fst (comments_POST (s\<lparr>eventPrivacy := rows\<rparr>) fault newId session eventId validation)
            \<noteq> fst (comments_POST s fault newId session eventId validation))
   \<and> \<not> (\<exists>s rows fault newId session eventId validation.
          fst (media_POST (s\<lparr>eventPrivacy := rows\<rparr>) fault newId session eventId validation)
            \<noteq> fst (media_POST s fault newId session eventId validation))"
proof -
  have "fst (comments_POST example_db None fresh1 (Some bob) ev1 (Some example_comment))
       = Success 201"
    and "fst (media_POST example_db None fresh1 (Some bob) ev1 (Some example_upload))
       = Success 201"
    using example_sessions(2) example_findEvent example_membership(2) example_contributor(2)
    by (auto simp: comments_POST_def media_POST_def Let_def split: option.splits)
  moreover have "map privacy_canComment
     (filter (\<lambda>p. privacy_eventId p = ev1 \<and> privacy_userId p = bob) (eventPrivacy example_db))
     = [False]"
    and "map privacy_canUploadMedia
     (filter (\<lambda>p. privacy_eventId p = ev1 \<and> privacy_userId p = bob) (eventPrivacy example_db))
     = [False]"
    by (simp_all add: example_db_def)
  ultimately show ?thesis
    by (simp only: comments_POST_ignores_privacy media_POST_ignores_privacy simp_thms)
qed

section \<open>Missing resources\<close>

lemma missing_family_has_no_member:
  assumes none: "find (\<lambda>f. family_id f = familyId) (families s) = None"
    and fk: "\<forall>m \<in> set (familyMembers s). \<exists>f \<in> set (families s). family_id f = member_familyId m"
  shows "findAdminMembership s familyId uid = None"
    and "findFamilyMembership s familyId uid = None"
proof -
  have "member_familyId m \<noteq> familyId" if "m \<in> set (familyMembers s)" for m
    using none fk that by (auto simp: find_None_iff)
  then show "findAdminMembership s familyId uid = None"
    and "findFamilyMembership s familyId uid = None"
    by (auto simp: findAdminMembership_def findFamilyMembership_def find_None_iff)
qed

lemma family_without_admin_row:
  assumes "session_user_id session = Some uid"
    and "findAdminMembership s familyId uid = None"
  shows "family_PUT s fault session familyId body =
      ((if fault = Some 0 then internal_server_error
        else Error 403 ''Unauthorized to update family''), s)"
    and "family_DELETE s fault session familyId =
      ((if fault = Some 0 then internal_server_error
        else Error 403 ''Unauthorized to delete family''), s)"
  using assms by (simp_all add: family_PUT_def family_DELETE_def)

lemma family_GET_without_member_row:
  assumes "session_user_id session = Some uid"
    and "findFamilyMembership s familyId uid = None"
  shows "family_GET s fault session familyId =
      ((if fault = Some 0 then internal_server_error
        else Error 404 ''Family not found or access denied''), s)"
  using assms by (simp add: family_GET_def)

lemma notification_missing:
  assumes "session_user_id session = Some uid"
    and "findNotification s notificationId uid = None"
  shows "notifications_PUT s None session notificationId isRead True =
      (Error 404 ''Notification not found'', s)"
    and "notifications_DELETE s None session notificationId True =
      (Error 404 ''Notification not found'', s)"
  using assms by (simp_all add: notifications_PUT_def notifications_DELETE_def)

lemma comment_missing:
  assumes "session_user_id session = Some uid"
    and "findEvent s eventId = Some event"
    and "findFamilyMembership s (event_familyId event) uid = Some membership"
    and "find (\<lambda>c. comment_id c = commentId \<and> comment_eventId c = eventId) (comments s) = None"
  shows "comments_DELETE s None session eventId commentId = (Error 404 ''Comment not found'', s)"
  using assms by (simp add: comments_DELETE_def)

lemma canDelete_row:
  "(find (\<lambda>c. contributor_eventId c = eventId \<and> contributor_userId c = uid
             \<and> contributor_canDelete c = True) rows \<noteq> None)
     = (\<exists>c \<in> set rows. contributor_eventId c = eventId
          \<and> contributor_userId c = uid \<and> contributor_canDelete c)"
  unfolding find_not_None by simp

lemma media_DELETE_member:
  assumes auth: "session_user_id session = Some uid"
    and ev: "findEvent s eventId = Some event"
    and mem: "findFamilyMembership s (event_familyId event) uid = Some membership"
  shows "media_DELETE s None session eventId mediaId =
           (if event_createdById event = uid
               \<or> (\<exists>c \<in> set (eventContributors s). contributor_eventId c = eventId
                     \<and> contributor_userId c = uid \<and> contributor_canDelete c)
            then (case find (\<lambda>m. media_id m = mediaId \<and> media_eventId m = eventId) (media s) of
                    None \<Rightarrow> (Error 404 ''Media not found'', s)
                  | Some existing \<Rightarrow>
                      (Success 200, s\<lparr>media := filter (\<lambda>m. media_id m \<noteq> mediaId) (media s)\<rparr>))
            else (permission_denied, s))"
proof -
  let ?may = "find (\<lambda>c. contributor_eventId c = eventId \<and> contributor_userId c = uid
                       \<and> contributor_canDelete c = True) (eventContributors s) \<noteq> None"
  have "media_DELETE s None session eventId mediaId =
           (if event_createdById event = uid \<or> ?may
            then (case find (\<lambda>m. media_id m = mediaId \<and> media_eventId m = eventId) (media s) of
                    None \<Rightarrow> (Error 404 ''Media not found'', s)
                  | Some existing \<Rightarrow>
                      (Success 200, s\<lparr>media := filter (\<lambda>m. media_id m \<noteq> mediaId) (media s)\<rparr>))
            else (permission_denied, s))"
    using auth ev mem by (simp add: media_DELETE_def split: option.split)
  then show ?thesis
    unfolding canDelete_row .
qed

lemma media_missing:
  assumes "session_user_id session = Some uid"
    and "findEvent s eventId = Some event"
    and "findFamilyMembership s (event_familyId event) uid = Some membership"
    and none: "find (\<lambda>m. media_id m = mediaId \<and> media_eventId m = eventId) (media s) = None"
  shows "media_DELETE s None session eventId mediaId =
      ((if event_createdById event = uid
           \<or> (\<exists>c \<in> set (eventContributors s). contributor_eventId c = eventId
                 \<and> contributor_userId c = uid \<and> contributor_canDelete c)
        then Error 404 ''Media not found'' else permission_denied), s)"
  unfolding media_DELETE_member [OF assms(1-3)] none by auto

text \<open>
  C1 (amended). For a signed-in user and no store fault: each of the sixteen handlers on an
  event answers 404 ``Event not found'' when the event does not exist (a POST or PUT after
  its body passed validation), before membership and permission are looked at; deleting a comment that does not exist on the event answers 404 before
  its permission check; updating or deleting a notification the caller has none of
  answers 404. Deleting media checks the permission first: for media that does not exist
  the answer is 404 ``Media not found'' only when the caller is the creator or a
  contributor with \<open>canDelete\<close>, and 403 ``Permission denied'' otherwise. Updating and
  deleting a family have no existence check: for a family that does not exist (so that no
  member row refers to it) they answer 403, and reading it answers 404.
\<close>

theorem existence_before_permission:
  assumes auth: "session_user_id session = Some uid"
  shows "(findEvent s eventId = None \<longrightarrow>
            comments_GET s None session eventId = (event_not_found, s)
          \<and> comments_POST s None newId session eventId (Some cdata) = (event_not_found, s)
          \<and> comments_DELETE s None session eventId commentId = (event_not_found, s)
          \<and> comments_PUT s None session eventId commentId content True = (event_not_found, s)
          \<and> media_GET s None session eventId = (event_not_found, s)
          \<and> media_POST s None newId session eventId (Some mdata) = (event_not_found, s)
          \<and> media_DELETE s None session eventId mediaId = (event_not_found, s)
          \<and> privacy_GET s None session eventId = (event_not_found, s)
          \<and> privacy_POST s None newId session eventId (Some pdata) = (event_not_found, s)
          \<and> privacy_DELETE s None session eventId userId = (event_not_found, s)
          \<and> contributors_GET s None session eventId = (event_not_found, s)
          \<and> contributors_POST s None newId session eventId (Some edata) = (event_not_found, s)
          \<and> contributors_DELETE uuid_in s None session eventId userId = (event_not_found, s)
          \<and> event_GET s None session eventId = (event_not_found, s)
          \<and> event_DELETE s None session eventId = (event_not_found, s)
          \<and> (eb_title body = Some title \<longrightarrow> trim title \<noteq> [] \<longrightarrow>
             eb_date body = Some date \<longrightarrow> date \<noteq> [] \<longrightarrow>
             event_PUT s None session eventId body = (event_not_found, s)))
       \<and> (findEvent s eventId = Some event \<longrightarrow>
            findFamilyMembership s (event_familyId event) uid = Some membership \<longrightarrow>
              (find (\<lambda>c. comment_id c = commentId \<and> comment_eventId c = eventId) (comments s)
                 = None \<longrightarrow>
               comments_DELETE s None session eventId commentId
                 = (Error 404 ''Comment not found'', s))
            \<and> (find (\<lambda>m. media_id m = mediaId \<and> media_eventId m = eventId) (media s)
                 = None \<longrightarrow>
               media_DELETE s None session eventId mediaId =
                 ((if event_createdById event = uid
                      \<or> (\<exists>c \<in> set (eventContributors s). contributor_eventId c = eventId
                            \<and> contributor_userId c = uid \<and> contributor_canDelete c)
                   then Error 404 ''Media not found'' else permission_denied), s)))
       \<and> (findNotification s notificationId uid = None \<longrightarrow>
            notifications_PUT s None session notificationId isRead True
              = (Error 404 ''Notification not found'', s)
          \<and> notifications_DELETE s None session notificationId True
              = (Error 404 ''Notification not found'', s))
       \<and> (find (\<lambda>f. family_id f = familyId) (families s) = None \<longrightarrow>
           (\<forall>m \<in> set (familyMembers s). \<exists>f \<in> set (families s).
               family_id f = member_familyId m) \<longrightarrow>
            family_GET s None session familyId
              = (Error 404 ''Family not found or access denied'', s)
          \<and> family_PUT s None session familyId fbody
              = (Error 403 ''Unauthorized to update family'', s)
          \<and> family_DELETE s None session familyId
              = (Error 403 ''Unauthorized to delete family'', s))"
proof (intro conjI impI)
  assume none: "findEvent s eventId = None"
  note checks = auth none
  show "comments_GET s None session eventId = (event_not_found, s)"
    using comments_GET_no_event [OF checks] by simp
  show "comments_POST s None newId session eventId (Some cdata) = (event_not_found, s)"
    using comments_POST_no_event [OF checks] by simp
  show "comments_DELETE s None session eventId commentId = (event_not_found, s)"
    using comments_DELETE_no_event [OF checks] by simp
  show "comments_PUT s None session eventId commentId content True = (event_not_found, s)"
    using comments_PUT_no_event [OF checks] by simp
  show "media_GET s None session eventId = (event_not_found, s)"
    using media_GET_no_event [OF checks] by simp
  show "media_POST s None newId session eventId (Some mdata) = (event_not_found, s)"
    using media_POST_no_event [OF checks] by simp
  show "media_DELETE s None session eventId mediaId = (event_not_found, s)"
    using media_DELETE_no_event [OF checks] by simp
  show "privacy_GET s None session eventId = (event_not_found, s)"
    using privacy_GET_no_event [OF checks] by simp
  show "privacy_POST s None newId session eventId (Some pdata) = (event_not_found, s)"
    using privacy_POST_no_event [OF checks] by simp
  show "privacy_DELETE s None session eventId userId = (event_not_found, s)"
    using privacy_DELETE_no_event [OF checks] by simp
  show "contributors_GET s None session eventId = (event_not_found, s)"
    using contributors_GET_no_event [OF checks] by simp
  show "contributors_POST s None newId session eventId (Some edata) = (event_not_found, s)"
    using contributors_POST_no_event [OF checks] by simp
  show "contributors_DELETE uuid_in s None session eventId userId = (event_not_found, s)"
    using contributors_DELETE_no_event [OF checks] by simp
  show "event_GET s None session eventId = (event_not_found, s)"
    using event_GET_no_member [OF auth join_event_empty(2) [OF none]] by simp
  show "event_DELETE s None session eventId = (event_not_found, s)"
    using event_DELETE_no_member [OF auth join_event_empty(1) [OF none]] by simp
  show "event_PUT s None session eventId body = (event_not_found, s)"
    if "eb_title body = Some title" "trim title \<noteq> []" "eb_date body = Some date"
      "date \<noteq> []"
    using event_PUT_no_member [OF auth join_event_empty(1) [OF none] that] by simp
next
  assume "findEvent s eventId = Some event"
    and "findFamilyMembership s (event_familyId event) uid = Some membership"
    and "find (\<lambda>c. comment_id c = commentId \<and> comment_eventId c = eventId) (comments s) = None"
  then show "comments_DELETE s None session eventId commentId
      = (Error 404 ''Comment not found'', s)"
    by (rule comment_missing [OF auth])
next
  assume "findEvent s eventId = Some event"
    and "findFamilyMembership s (event_familyId event) uid = Some membership"
    and "find (\<lambda>m. media_id m = mediaId \<and> media_eventId m = eventId) (media s) = None"
  then show "media_DELETE s None session eventId mediaId =
      ((if event_createdById event = uid
           \<or> (\<exists>c \<in> set (eventContributors s). contributor_eventId c = eventId
                 \<and> contributor_userId c = uid \<and> contributor_canDelete c)
        then Error 404 ''Media not found'' else permission_denied), s)"
    by (rule media_missing [OF auth])
next
  assume none: "findNotification s notificationId uid = None"
  show "notifications_PUT s None session notificationId isRead True
      = (Error 404 ''Notification not found'', s)"
    by (rule notification_missing(1) [OF auth none])
  show "notifications_DELETE s None session notificationId True
      = (Error 404 ''Notification not found'', s)"
    by (rule notification_missing(2) [OF auth none])
next
  assume none: "find (\<lambda>f. family_id f = familyId) (families s) = None"
    and fk: "\<forall>m \<in> set (familyMembers s). \<exists>f \<in> set (families s).
               family_id f = member_familyId m"
  note rows = missing_family_has_no_member [OF none fk, of uid]
  show "family_GET s None session familyId
      = (Error 404 ''Family not found or access denied'', s)"
    using family_GET_without_member_row [OF auth rows(2)] by simp
  show "family_PUT s None session familyId fbody
      = (Error 403 ''Unauthorized to update family'', s)"
    using family_without_admin_row(1) [OF auth rows(1)] by simp
  show "family_DELETE s None session familyId
      = (Error 403 ''Unauthorized to delete family'', s)"
    using family_without_admin_row(2) [OF auth rows(1)] by simp
qed

text \<open>The theorem at Carol, for an event and a family that do not exist.\<close>

theorem existence_before_permission_witness:
  "session_user_id (Some carol) = Some carol
   \<and> findEvent example_db missing = None
   \<and> comments_POST example_db None fresh1 (Some carol) missing (Some example_comment)
       = (event_not_found, example_db)
   \<and> event_GET example_db None (Some carol) missing = (event_not_found, example_db)
   \<and> event_PUT example_db None (Some carol) missing example_event_body
       = (event_not_found, example_db)
   \<and> find (\<lambda>f. family_id f = missing) (families example_db) = None
   \<and> map member_familyId (familyMembers example_db) = [fam1, fam1, fam1]
   \<and> map family_id (families example_db) = [fam1]
   \<and> family_PUT example_db None (Some carol) missing example_family
       = (Error 403 ''Unauthorized to update family'', example_db)
   \<and> family_DELETE example_db None (Some carol) missing
       = (Error 403 ''Unauthorized to delete family'', example_db)"
proof -
  have none: "findEvent example_db missing = None"
    "find (\<lambda>f. family_id f = missing) (families example_db) = None"
    by (simp_all add: findEvent_def example_db_def example_event_def ids)
  have rows: "map member_familyId (familyMembers example_db) = [fam1, fam1, fam1]"
    "map family_id (families example_db) = [fam1]"
    by (simp_all add: example_db_def)
  have fk: "\<forall>m \<in> set (familyMembers example_db). \<exists>f \<in> set (families example_db).
               family_id f = member_familyId m"
    by (simp add: example_db_def)
  have body: "eb_title example_event_body = Some (utf16 ''Party'')"
    "trim (utf16 ''Party'') \<noteq> []"
    "eb_date example_event_body = Some ''2024-07-01''"
    by (simp_all add: example_event_body_def trim_examples)
  show ?thesis
    using existence_before_permission [OF example_sessions(3), where s = example_db
        and eventId = missing and familyId = missing and newId = fresh1
        and cdata = example_comment and fbody = example_family
        and body = example_event_body and title = "utf16 ''Party''"
        and date = "''2024-07-01''"]
      example_sessions(3) none rows fk body
    by simp
qed

text \<open>
  C1 as stated fails twice: updating or deleting a family that does not exist answers 403,
  and deleting media that does not exist answers 403 to Carol, who would not pass the
  permission check, and 404 to Alice, who would.
\<close>

theorem missing_resource_counterexample:
  "find (\<lambda>f. family_id f = missing) (families example_db) = None
   \<and> family_PUT example_db None (Some alice) missing example_family
       = (Error 403 ''Unauthorized to update family'', example_db)
   \<and> family_DELETE example_db None (Some alice) missing
       = (Error 403 ''Unauthorized to delete family'', example_db)
   \<and> find (\<lambda>m. media_id m = missing) (media example_db) = None
   \<and> media_DELETE example_db None (Some carol) ev1 missing
       = (Error 403 ''Permission denied'', example_db)
   \<and> media_DELETE example_db None (Some alice) ev1 missing
       = (Error 404 ''Media not found'', example_db)"
proof -
  have "find (\<lambda>f. family_id f = missing) (families example_db) = None"
    and "find (\<lambda>m. media_id m = missing) (media example_db) = None"
    and "findAdminMembership example_db missing alice = None"
    and media: "find (\<lambda>m. media_id m = missing \<and> media_eventId m = ev1) (media example_db) = None"
    and may: "find (\<lambda>c. contributor_eventId c = ev1 \<and> contributor_userId c = carol
                       \<and> contributor_canDelete c = True) (eventContributors example_db) = None"
    by (simp_all add: findAdminMembership_def example_db_def ids)
  moreover have "media_DELETE example_db None (Some carol) ev1 missing
       = (Error 403 ''Permission denied'', example_db)"
    using media may
    by (simp add: media_DELETE_def example_sessions example_findEvent example_event_fields
          example_member_rows example_users_distinct permission_denied_def)
  moreover have "media_DELETE example_db None (Some alice) ev1 missing
       = (Error 404 ''Media not found'', example_db)"
    using media
    by (simp add: media_DELETE_def example_sessions example_findEvent example_event_fields
          example_member_rows)
  ultimately show ?thesis
    by (simp add: family_PUT_def family_DELETE_def example_sessions)
qed

end
